theory Spec2Isabelle
  imports Main "HOL-Library.Sublist"
begin

section \<open>JavaScript values used by the Header block tool\<close>

text \<open>
  The tool receives duck-typed values (persisted data, configuration fields, callback
  arguments). They are modelled by one datatype. A number is a double:
  \<^item> \<open>JNum n\<close> is the double nearest to the integer \<open>n\<close> (ties to the even mantissa),
    which is \<open>n\<close> itself up to \<open>2^53\<close>; it is zero only for \<open>n = 0\<close>, and it is one
    of the level ids 1 to 6 only when \<open>n\<close> is; the two zeros are not told apart;
  \<^item> \<open>JDouble s\<close> is any other number, a fraction or an infinity, given by the string
    \<open>s\<close> that \<open>String\<close> prints for it (\<open>2.5\<close>, \<open>1e-7\<close>, \<open>-Infinity\<close>);
  \<^item> \<open>JNaN\<close> is \<open>NaN\<close>.
  Strings are lists of 8-bit characters. Functions, symbols and objects with methods of
  their own are left out.
\<close>

datatype jsval =
    JUndefined
  | JNull
  | JBool bool
  | JNaN
  | JNum int
  | JDouble string
  | JStr string
  | JArr "jsval list"
  | JObj "(string \<times> jsval) list"

datatype error = TypeError string | NotFoundError

text \<open>\<open>typeof v\<close>: \<open>null\<close>, arrays and plain objects all answer \<open>object\<close>.\<close>

fun typeof :: "jsval \<Rightarrow> string" where
  "typeof JUndefined = ''undefined''"
| "typeof JNull = ''object''"
| "typeof (JBool b) = ''boolean''"
| "typeof JNaN = ''number''"
| "typeof (JNum n) = ''number''"
| "typeof (JDouble s) = ''number''"
| "typeof (JStr s) = ''string''"
| "typeof (JArr xs) = ''object''"
| "typeof (JObj kvs) = ''object''"

text \<open>
  ToBoolean: the falsy values are \<open>undefined\<close>, \<open>null\<close>, \<open>false\<close>, \<open>NaN\<close>, \<open>0\<close>, \<open>''\<close>.
  A fraction or an infinity is not zero.
\<close>

fun truthy :: "jsval \<Rightarrow> bool" where
  "truthy JUndefined = False"
| "truthy JNull = False"
| "truthy (JBool b) = b"
| "truthy JNaN = False"
| "truthy (JNum n) = (n \<noteq> 0)"
| "truthy (JDouble s) = True"
| "truthy (JStr s) = (s \<noteq> [])"
| "truthy (JArr xs) = True"
| "truthy (JObj kvs) = True"

text \<open>\<open>a || b\<close> where \<open>b\<close> has no effect.\<close>

definition js_or :: "jsval \<Rightarrow> jsval \<Rightarrow> jsval" where
  "js_or a b = (if truthy a then a else b)"

text \<open>Decimal numerals.\<close>

definition digit_char :: "nat \<Rightarrow> char" where
  "digit_char d = char_of (of_char CHR ''0'' + d)"

fun digits :: "nat \<Rightarrow> string" where
  "digits n = (if n < 10 then [digit_char n] else digits (n div 10) @ [digit_char (n mod 10)])"

declare digits.simps [simp del]

text \<open>
  The double nearest to a positive integer \<open>a\<close>: the mantissa has 53 bits, so the lowest
  \<open>e\<close> bits of a longer integer are rounded away, a tie going to the even mantissa.
  From \<open>2^1024\<close> on the result stands for \<open>Infinity\<close>.
\<close>

function bit_length :: "int \<Rightarrow> nat" where
  "bit_length a = (if a \<le> 0 then 0 else Suc (bit_length (a div 2)))"
  by pat_completeness auto
termination
  by (relation "measure nat") auto

declare bit_length.simps [simp del]

definition nearest_double :: "int \<Rightarrow> int" where
  "nearest_double a =
     (let e = bit_length a - 53; q = a div 2 ^ e; r = a mod 2 ^ e
      in if 2 ^ e < 2 * r \<or> (2 * r = 2 ^ e \<and> odd q) then (q + 1) * 2 ^ e else q * 2 ^ e)"

text \<open>
  \<open>Number::toString\<close> for an integer-valued double \<open>x\<close> with \<open>n\<close> decimal digits: the
  digits printed are the fewest \<open>k\<close> such that a \<open>k\<close>-digit decimal followed by zeros is
  read back as \<open>x\<close>; of two such decimals the one nearer to \<open>x\<close> is taken, the even one
  on a tie. Below \<open>10^21\<close> the decimal is printed in full, from there on as
  \<open>d.ddde+N\<close>.
\<close>

definition decimal_with :: "int \<Rightarrow> nat \<Rightarrow> nat \<Rightarrow> int option" where
  "decimal_with x n k =
     (let scale = 10 ^ (n - k); lo = (x div scale) * scale; hi = lo + scale;
          lo_ok = (nearest_double lo = x); hi_ok = (nearest_double hi = x)
      in if lo_ok \<and> hi_ok then
           (if x - lo < hi - x then Some lo
            else if hi - x < x - lo then Some hi
            else if even (lo div scale) then Some lo else Some hi)
         else if lo_ok then Some lo
         else if hi_ok then Some hi
         else None)"

fun first_decimal :: "int \<Rightarrow> nat \<Rightarrow> nat list \<Rightarrow> int" where
  "first_decimal x n [] = x"
| "first_decimal x n (k # ks) =
     (case decimal_with x n k of Some v \<Rightarrow> v | None \<Rightarrow> first_decimal x n ks)"

definition strip_zeros :: "string \<Rightarrow> string" where
  "strip_zeros ds = rev (dropWhile (\<lambda>c. c = CHR ''0'') (rev ds))"

definition magnitude_string :: "int \<Rightarrow> string" where
  "magnitude_string a =
     (let x = nearest_double a in
      if 2 ^ 1024 \<le> x then ''Infinity''
      else let n = length (digits (nat x)); v = first_decimal x n [1..<n]; ds = digits (nat v)
           in if v < 10 ^ 21 then ds
              else let sd = strip_zeros ds
                   in take 1 sd @ (if length sd = 1 then [] else CHR ''.'' # drop 1 sd)
                        @ ''e+'' @ digits (length ds - 1))"

definition number_string :: "int \<Rightarrow> string" where
  "number_string n = (if n < 0 then CHR ''-'' # magnitude_string (- n) else magnitude_string n)"

definition join_comma :: "string list \<Rightarrow> string" where
  "join_comma ss = (case ss of [] \<Rightarrow> [] | s # r \<Rightarrow> foldl (\<lambda>acc x. acc @ '','' @ x) s r)"

text \<open>
  ToString. A plain object answers \<open>[object Object]\<close>; an array joins its elements with
  commas, \<open>undefined\<close> and \<open>null\<close> elements giving the empty string.
\<close>

fun ToString :: "jsval \<Rightarrow> string" where
  "ToString JUndefined = ''undefined''"
| "ToString JNull = ''null''"
| "ToString (JBool b) = (if b then ''true'' else ''false'')"
| "ToString JNaN = ''NaN''"
| "ToString (JNum n) = number_string n"
| "ToString (JDouble s) = s"
| "ToString (JStr s) = s"
| "ToString (JArr xs) =
     join_comma (map (\<lambda>x. if x = JUndefined \<or> x = JNull then [] else ToString x) xs)"
| "ToString (JObj kvs) = ''[object Object]''"

text \<open>
  \<open>parseInt(v, 10)\<close>: the argument is converted to a string, leading white space is
  skipped, one sign is read, then the longest run of decimal digits; no digit gives
  \<open>NaN\<close>. With radix 10 no \<open>0x\<close> prefix is recognised. The result is the number
  nearest to the integer that the digits denote (an engine may round a numeral of more
  than 20 digits a little differently; such a number is neither zero nor a level id
  either way).
\<close>

definition is_ws :: "char \<Rightarrow> bool" where
  "is_ws c = (of_char c \<in> {9::nat, 10, 11, 12, 13, 32, 160})"

definition is_digit :: "char \<Rightarrow> bool" where
  "is_digit c = (of_char CHR ''0'' \<le> (of_char c :: nat) \<and> (of_char c :: nat) \<le> of_char CHR ''9'')"

definition digit_val :: "char \<Rightarrow> int" where
  "digit_val c = int (of_char c) - int (of_char CHR ''0'')"

definition digits_val :: "string \<Rightarrow> int" where
  "digits_val ds = foldl (\<lambda>acc c. 10 * acc + digit_val c) 0 ds"

definition parseInt_str :: "string \<Rightarrow> jsval" where
  "parseInt_str inputString =
     (let S = dropWhile is_ws inputString;
          sign = (case S of c # _ \<Rightarrow> if c = CHR ''-'' then - 1 else 1 | [] \<Rightarrow> (1::int));
          S' = (case S of c # r \<Rightarrow> if c = CHR ''+'' \<or> c = CHR ''-'' then r else S | [] \<Rightarrow> S);
          Z = takeWhile is_digit S'
      in if Z = [] then JNaN else JNum (sign * digits_val Z))"

definition parseInt :: "jsval \<Rightarrow> jsval" where
  "parseInt v = parseInt_str (ToString v)"

text \<open>
  Reading a property: \<open>undefined.p\<close> and \<open>null.p\<close> throw a TypeError; a plain object
  answers its own property or \<open>undefined\<close>. The tool reads only \<open>text\<close>, \<open>level\<close> and
  \<open>align\<close>, which no primitive and no array carries.
\<close>

fun get_prop :: "jsval \<Rightarrow> string \<Rightarrow> error + jsval" where
  "get_prop JUndefined k = Inl (TypeError (''Cannot read properties of undefined (reading '' @ k @ '')''))"
| "get_prop JNull k = Inl (TypeError (''Cannot read properties of null (reading '' @ k @ '')''))"
| "get_prop (JObj kvs) k = Inr (case map_of kvs k of Some v \<Rightarrow> v | None \<Rightarrow> JUndefined)"
| "get_prop v k = Inr JUndefined"

text \<open>
  The binary \<open>+\<close> with a string \<open>s\<close> as its left operand: the concatenation of \<open>s\<close> and
  the string of the right operand.
\<close>

definition js_add_string :: "string \<Rightarrow> jsval \<Rightarrow> jsval" where
  "js_add_string s v = JStr (s @ ToString v)"

section \<open>Static tables of the class\<close>

text \<open>
  The icons are inert assets of files that are not part of the sources read here; they
  are kept as names. \<open>getAlignmentIcon(align)\<close> is kept as a constructor applied to the
  alignment name.
\<close>

datatype svg = headerIcon | h1Icon | h2Icon | h3Icon | h4Icon | h5Icon | h6Icon
  | getAlignmentIcon string

record header_level =
  id' :: int
  tag :: string
  icon :: svg

definition HEADER_LEVELS :: "header_level list" where
  "HEADER_LEVELS =
     [\<lparr>id' = 1, tag = ''H1'', icon = h1Icon\<rparr>,
      \<lparr>id' = 2, tag = ''H2'', icon = h2Icon\<rparr>,
      \<lparr>id' = 3, tag = ''H3'', icon = h3Icon\<rparr>,
      \<lparr>id' = 4, tag = ''H4'', icon = h4Icon\<rparr>,
      \<lparr>id' = 5, tag = ''H5'', icon = h5Icon\<rparr>,
      \<lparr>id' = 6, tag = ''H6'', icon = h6Icon\<rparr>]"

definition DEFAULT_HEADER_LEVEL :: header_level where
  "DEFAULT_HEADER_LEVEL = \<lparr>id' = 1, tag = ''H1'', icon = h1Icon\<rparr>"

definition ALIGN_TYPES :: "string list" where
  "ALIGN_TYPES = [''left'', ''center'', ''right'', ''justify'']"

definition DEFAULT_ALIGN_TYPE :: string where
  "DEFAULT_ALIGN_TYPE = ''left''"

section \<open>Configuration, block data, the document and the console\<close>

text \<open>
  The configuration as documented: \<open>levels\<close> is an array of numbers or absent,
  \<open>alignTypes\<close> an array of strings or absent (\<open>None\<close> stands for an absent or falsy
  field, \<open>Some xs\<close> for an array, whose elements may be any value). The other fields
  are arbitrary values, \<open>JUndefined\<close> when absent.
\<close>

record config =
  placeholder :: jsval
  levels :: "jsval list option"
  defaultLevel :: jsval
  alignTypes :: "jsval list option"
  defaultAlignType :: jsval

definition empty_config :: config where
  "empty_config = \<lparr>placeholder = JUndefined, levels = None, defaultLevel = JUndefined,
     alignTypes = None, defaultAlignType = JUndefined\<rparr>"

record header_data =
  text' :: jsval
  level :: jsval
  align :: jsval

text \<open>
  An element, as the program reads it: \<open>innerHTML\<close> is what the getter returns.
\<close>

record node =
  tagName :: string
  innerHTML :: string
  classList :: "string list"
  contentEditable :: string
  dataset_placeholder :: "string option"
  parentNode :: "nat option"
  childNodes :: "nat list"

text \<open>
  Assigning a string to \<open>innerHTML\<close> makes the browser parse it as markup, and the
  getter returns the serialisation of what was parsed (\<open>a & b\<close> comes back as
  \<open>a &amp; b\<close>). That function of the browser is not code of the tool; it is a
  parameter of the document. Two properties of it are kept in its type: markup that
  the getter returned is returned again when it is assigned, and the empty string gives
  no markup. (The first holds of text and of the inline markup an editor produces; the
  HTML standard warns of nestings of elements that a browser does not serialise and
  parse back to the same tree, and these are left out.)
\<close>

typedef serializer = "{f :: string \<Rightarrow> string. (\<forall>s. f (f s) = f s) \<and> f [] = []}"
  morphisms serialize Abs_serializer
  by (rule exI [of _ id]) simp

setup_lifting type_definition_serializer

text \<open>
  The document is a store of elements addressed by number. \<open>stored\<close> keeps for each
  element what was last assigned to it, its \<open>innerHTML\<close> field holding the assigned
  string; \<open>nodes w n\<close> is element \<open>n\<close> as the program reads it, with the markup that
  the getter returns.
\<close>

record world =
  stored :: "nat \<Rightarrow> node"
  fresh :: nat
  console :: "string list"
  browser :: serializer

definition nodes :: "world \<Rightarrow> nat \<Rightarrow> node" where
  "nodes w n = (stored w n)\<lparr>innerHTML := serialize (browser w) (innerHTML (stored w n))\<rparr>"

definition new_node :: "string \<Rightarrow> node" where
  "new_node t = \<lparr>tagName = t, innerHTML = [], classList = [], contentEditable = ''inherit'',
     dataset_placeholder = None, parentNode = None, childNodes = []\<rparr>"

definition createElement :: "string \<Rightarrow> world \<Rightarrow> nat \<times> world" where
  "createElement t w =
     (fresh w, w\<lparr>stored := (stored w)(fresh w := new_node t), fresh := Suc (fresh w)\<rparr>)"

definition update_node :: "nat \<Rightarrow> (node \<Rightarrow> node) \<Rightarrow> world \<Rightarrow> world" where
  "update_node el f w = w\<lparr>stored := (stored w)(el := f (stored w el))\<rparr>"

text \<open>
  The \<open>innerHTML\<close> setter: \<open>null\<close> is assigned as the empty string, any other value as
  its string.
\<close>

definition set_innerHTML :: "nat \<Rightarrow> jsval \<Rightarrow> world \<Rightarrow> world" where
  "set_innerHTML el v w =
     update_node el (\<lambda>n. n\<lparr>innerHTML := (if v = JNull then [] else ToString v)\<rparr>) w"

text \<open>
  \<open>classList\<close> is an ordered set of tokens: \<open>add\<close> appends each token that is not
  there yet, \<open>remove\<close> deletes the token. The tool only passes the fixed wrapper class
  and \<open>ce-header-align-\<close> followed by a built-in alignment name, so the token errors
  of the DOM (empty token, white space) cannot arise.
\<close>

definition token_add :: "string list \<Rightarrow> string \<Rightarrow> string list" where
  "token_add cl tok = (if tok \<in> set cl then cl else cl @ [tok])"

definition classList_add :: "nat \<Rightarrow> string list \<Rightarrow> world \<Rightarrow> world" where
  "classList_add el toks w = update_node el (\<lambda>n. n\<lparr>classList := foldl token_add (classList n) toks\<rparr>) w"

definition classList_remove :: "nat \<Rightarrow> string \<Rightarrow> world \<Rightarrow> world" where
  "classList_remove el tok w =
     update_node el (\<lambda>n. n\<lparr>classList := filter (\<lambda>c. c \<noteq> tok) (classList n)\<rparr>) w"

text \<open>
  \<open>parent.replaceChild(node, child)\<close>: a NotFoundError unless \<open>child\<close> is a child of
  \<open>parent\<close>; otherwise \<open>node\<close> takes the place of \<open>child\<close> among the children.
\<close>

definition replaceChild :: "nat \<Rightarrow> nat \<Rightarrow> nat \<Rightarrow> world \<Rightarrow> error + world" where
  "replaceChild parent newNode child w =
     (if parentNode (nodes w child) \<noteq> Some parent then Inl NotFoundError
      else Inr (update_node newNode (\<lambda>n. n\<lparr>parentNode := Some parent\<rparr>)
             (update_node child (\<lambda>n. n\<lparr>parentNode := None\<rparr>)
               (update_node parent
                  (\<lambda>n. n\<lparr>childNodes := map (\<lambda>c. if c = child then newNode else c) (childNodes n)\<rparr>) w))))"

definition warn :: "string \<Rightarrow> world \<Rightarrow> world" where
  "warn msg w = w\<lparr>console := console w @ [msg]\<rparr>"

section \<open>The Header class\<close>

text \<open>
  The fields of an instance. \<open>i18n_t\<close> is the host's translation function
  \<open>api.i18n.t\<close>. The field \<open>element\<close> is assigned last by the constructor, so the
  getters and \<open>getElement\<close>, which run before that, are defined on the fields without
  it.
\<close>

record header_fields =
  i18n_t :: "jsval \<Rightarrow> jsval"
  readOnly :: jsval
  config :: config
  data :: header_data

record header = header_fields +
  element :: nat

definition CSS_wrapper :: string where
  "CSS_wrapper = ''ce-header''"

definition wrapperForAlignment :: "string \<Rightarrow> string" where
  "wrapperForAlignment alignType = ''ce-header-align-'' @ alignType"

text \<open>\<open>xs.includes(v)\<close> for a number or a string \<open>v\<close>.\<close>

definition array_includes :: "jsval list \<Rightarrow> jsval \<Rightarrow> bool" where
  "array_includes xs v = (v \<in> set xs)"

definition availableLevels :: "config \<Rightarrow> header_level list" where
  "availableLevels c =
     (case levels c of
        Some ls \<Rightarrow> filter (\<lambda>level. array_includes ls (JNum (id' level))) HEADER_LEVELS
      | None \<Rightarrow> HEADER_LEVELS)"

text \<open>The warnings start with an emoticon outside ASCII, which is left out here.\<close>

definition level_warning :: string where
  "level_warning = ''Heading Tool: the default level specified was not found in available levels''"

definition align_warning :: string where
  "align_warning = ''Heading Tool: the default align type specified is invalid''"

definition userDefaultLevel :: "config \<Rightarrow> world \<Rightarrow> header_level \<times> world" where
  "userDefaultLevel c w =
     (if truthy (defaultLevel c) then
        (case find (\<lambda>levelItem. JNum (id' levelItem) = parseInt (defaultLevel c)) (availableLevels c) of
           Some userSpecified \<Rightarrow> (userSpecified, w)
         | None \<Rightarrow> (DEFAULT_HEADER_LEVEL, warn level_warning w))
      else (DEFAULT_HEADER_LEVEL, w))"

definition availableAlignTypes :: "config \<Rightarrow> string list" where
  "availableAlignTypes c =
     (case alignTypes c of
        Some ts \<Rightarrow> filter (\<lambda>align. array_includes ts (JStr align)) ALIGN_TYPES
      | None \<Rightarrow> ALIGN_TYPES)"

definition userDefaultAlignType :: "config \<Rightarrow> world \<Rightarrow> string \<times> world" where
  "userDefaultAlignType c w =
     (if truthy (defaultAlignType c) then
        (case find (\<lambda>align. JStr align = defaultAlignType c) (availableAlignTypes c) of
           Some userSpecified \<Rightarrow>
             if truthy (JStr userSpecified) then (userSpecified, w)
             else (DEFAULT_ALIGN_TYPE, warn align_warning w)
         | None \<Rightarrow> (DEFAULT_ALIGN_TYPE, warn align_warning w))
      else (DEFAULT_ALIGN_TYPE, w))"

text \<open>
  \<open>_normalizeData\<close>. The right operand of each \<open>||\<close> is a getter that may warn, and
  runs only when the left operand is falsy.
\<close>

definition normalizeData :: "config \<Rightarrow> jsval \<Rightarrow> world \<Rightarrow> error + (header_data \<times> world)" where
  "normalizeData c data0 w =
     (let data1 = (if typeof data0 \<noteq> ''object'' then JObj [] else data0) in
      case get_prop data1 ''text'' of
        Inl e \<Rightarrow> Inl e
      | Inr t \<Rightarrow>
         (case get_prop data1 ''level'' of
            Inl e \<Rightarrow> Inl e
          | Inr lv \<Rightarrow>
             (let (newLevel, w1) =
                    (if truthy (parseInt lv) then (parseInt lv, w)
                     else (case userDefaultLevel c w of (d, w') \<Rightarrow> (JNum (id' d), w')))
              in case get_prop data1 ''align'' of
                   Inl e \<Rightarrow> Inl e
                 | Inr al \<Rightarrow>
                    (let (newAlign, w2) =
                           (if truthy al then (al, w1)
                            else (case userDefaultAlignType c w1 of (a, w') \<Rightarrow> (JStr a, w')))
                     in Inr (\<lparr>text' = js_or t (JStr []), level = newLevel, align = newAlign\<rparr>, w2)))))"

definition currentLevel :: "'a header_fields_scheme \<Rightarrow> world \<Rightarrow> header_level \<times> world" where
  "currentLevel this w =
     (case find (\<lambda>levelItem. JNum (id' levelItem) = level (data this)) (availableLevels (config this)) of
        Some l \<Rightarrow> (l, w)
      | None \<Rightarrow> userDefaultLevel (config this) w)"

definition currentAlignType :: "'a header_fields_scheme \<Rightarrow> world \<Rightarrow> string \<times> world" where
  "currentAlignType this w =
     (case find (\<lambda>a. JStr a = align (data this)) (availableAlignTypes (config this)) of
        Some alignType \<Rightarrow>
          if truthy (JStr alignType) then (alignType, w) else userDefaultAlignType (config this) w
      | None \<Rightarrow> userDefaultAlignType (config this) w)"

definition getElement :: "'a header_fields_scheme \<Rightarrow> world \<Rightarrow> nat \<times> world" where
  "getElement this w =
     (let (lv, w1) = currentLevel this w;
          (el, w2) = createElement (tag lv) w1;
          w3 = set_innerHTML el (js_or (text' (data this)) (JStr [])) w2;
          (al, w4) = currentAlignType this w3;
          w5 = classList_add el [CSS_wrapper, wrapperForAlignment al] w4;
          w6 = update_node el (\<lambda>n. n\<lparr>contentEditable := ToString (JBool (\<not> truthy (readOnly this)))\<rparr>) w5;
          w7 = update_node el (\<lambda>n. n\<lparr>dataset_placeholder :=
                  Some (ToString (i18n_t this (js_or (placeholder (config this)) (JStr []))))\<rparr>) w6
      in (el, w7))"

text \<open>
  \<open>_setHeaderLevel\<close>. \<open>this._element.parentNode\<close> is a node or \<open>null\<close>; the new
  element is built from the updated data and takes over the markup of the old one. The
  parent is read a second time for the call of \<open>replaceChild\<close>.
\<close>

definition setHeaderLevel :: "header \<Rightarrow> jsval \<Rightarrow> world \<Rightarrow> error + (header \<times> world)" where
  "setHeaderLevel this newLevel w =
     (let (lv, w1) =
            (if truthy (parseInt newLevel) then (parseInt newLevel, w)
             else (case userDefaultLevel (config this) w of (d, w') \<Rightarrow> (JNum (id' d), w')));
          this1 = this\<lparr>data := (data this)\<lparr>level := lv\<rparr>\<rparr>
      in if newLevel \<noteq> JUndefined \<and> parentNode (nodes w1 (element this1)) \<noteq> None then
           (let (newHeader, w2) = getElement this1 w1;
                w3 = set_innerHTML newHeader (JStr (innerHTML (nodes w2 (element this1)))) w2
            in case parentNode (nodes w3 (element this1)) of
                 None \<Rightarrow> Inl (TypeError ''Cannot read properties of null (reading replaceChild)'')
               | Some parent \<Rightarrow>
                  (case replaceChild parent newHeader (element this1) w3 of
                     Inl e \<Rightarrow> Inl e
                   | Inr w4 \<Rightarrow> Inr (this1\<lparr>element := newHeader\<rparr>, w4)))
         else Inr (this1, w1))"

text \<open>\<open>_setAlignType\<close>: the body of the \<open>forEach\<close> callback, then the loop.\<close>

definition setAlignType_step :: "nat \<Rightarrow> jsval \<Rightarrow> world \<Rightarrow> string \<Rightarrow> world" where
  "setAlignType_step el newAlign w a =
     (let alignClass = wrapperForAlignment a;
          w1 = classList_remove el alignClass w
      in if newAlign = JStr a then classList_add el [alignClass] w1 else w1)"

definition setAlignType :: "header \<Rightarrow> jsval \<Rightarrow> world \<Rightarrow> header \<times> world" where
  "setAlignType this newAlign w =
     (let this1 = this\<lparr>data := (data this)\<lparr>align := newAlign\<rparr>\<rparr>
      in (this1, foldl (setAlignType_step (element this1) newAlign) w ALIGN_TYPES))"

definition render :: "header \<Rightarrow> nat" where
  "render this = element this"

text \<open>\<open>save(blockContent)\<close>; \<open>blockContent\<close> is an element of the document.\<close>

definition save :: "'a header_fields_scheme \<Rightarrow> nat \<Rightarrow> world \<Rightarrow> header_data \<times> world" where
  "save this blockContent w =
     (let (lv, w1) = currentLevel this w;
          (al, w2) = currentAlignType this w1
      in (\<lparr>text' = JStr (innerHTML (nodes w blockContent)), level = JNum (id' lv), align = JStr al\<rparr>, w2))"

text \<open>
  \<open>_getFormattedLabel\<close>. Without a prefix the name must be a string, since \<open>charAt\<close>
  is called on it. \<open>toUpperCase\<close> is modelled on the letters a to z, which is all the
  built-in alignment names contain.
\<close>

definition toUpperCase :: "string \<Rightarrow> string" where
  "toUpperCase s =
     map (\<lambda>c. if of_char CHR ''a'' \<le> (of_char c :: nat) \<and> (of_char c :: nat) \<le> of_char CHR ''z''
              then char_of ((of_char c :: nat) - 32) else c) s"

definition getFormattedLabel :: "'a header_fields_scheme \<Rightarrow> jsval \<Rightarrow> jsval \<Rightarrow> error + jsval" where
  "getFormattedLabel this name pre =
     (if truthy pre then Inr (i18n_t this (JStr (ToString pre @ ToString name)))
      else (case name of
              JStr n \<Rightarrow> Inr (i18n_t this (JStr (toUpperCase (take 1 n) @ drop 1 n)))
            | _ \<Rightarrow> Inl (TypeError ''name.charAt is not a function'')))"

text \<open>A menu entry. The activation closures are kept as the call they make.\<close>

datatype callback = call_setHeaderLevel int | call_setAlignType string

record setting =
  icon' :: svg
  label :: jsval
  onActivate :: callback
  isActive :: bool
  closeOnActivate :: bool
  toggle :: string

definition createSetting :: "svg \<Rightarrow> jsval \<Rightarrow> callback \<Rightarrow> bool \<Rightarrow> string \<Rightarrow> setting" where
  "createSetting ic lbl act active grp =
     \<lparr>icon' = ic, label = lbl, onActivate = act, isActive = active, closeOnActivate = True,
      toggle = grp\<rparr>"

text \<open>\<open>Array.map\<close> with a callback that may warn or throw.\<close>

fun map_effect :: "('a \<Rightarrow> world \<Rightarrow> error + ('b \<times> world)) \<Rightarrow> 'a list \<Rightarrow> world \<Rightarrow> error + ('b list \<times> world)" where
  "map_effect f [] w = Inr ([], w)"
| "map_effect f (x # xs) w =
     (case f x w of
        Inl e \<Rightarrow> Inl e
      | Inr (y, w1) \<Rightarrow>
         (case map_effect f xs w1 of
            Inl e \<Rightarrow> Inl e
          | Inr (ys, w2) \<Rightarrow> Inr (y # ys, w2)))"

definition headerType :: "'a header_fields_scheme \<Rightarrow> header_level \<Rightarrow> world \<Rightarrow> error + (setting \<times> world)" where
  "headerType this lvl w =
     (case getFormattedLabel this (JNum (id' lvl)) (JStr ''Heading '') of
        Inl e \<Rightarrow> Inl e
      | Inr lbl \<Rightarrow>
         (case currentLevel this w of
            (cur, w1) \<Rightarrow>
              Inr (createSetting (icon lvl) lbl (call_setHeaderLevel (id' lvl)) (id' lvl = id' cur)
                     ''heading'', w1)))"

definition alignType :: "'a header_fields_scheme \<Rightarrow> string \<Rightarrow> world \<Rightarrow> error + (setting \<times> world)" where
  "alignType this al w =
     (case getFormattedLabel this (JStr al) JUndefined of
        Inl e \<Rightarrow> Inl e
      | Inr lbl \<Rightarrow>
         (case currentAlignType this w of
            (cur, w1) \<Rightarrow>
              Inr (createSetting (getAlignmentIcon al) lbl (call_setAlignType al) (al = cur)
                     ''align'', w1)))"

definition renderSettings :: "'a header_fields_scheme \<Rightarrow> world \<Rightarrow> error + (setting list \<times> world)" where
  "renderSettings this w =
     (case map_effect (headerType this) HEADER_LEVELS w of
        Inl e \<Rightarrow> Inl e
      | Inr (headerTypes, w1) \<Rightarrow>
         (case map_effect (alignType this) ALIGN_TYPES w1 of
            Inl e \<Rightarrow> Inl e
          | Inr (alignItems, w2) \<Rightarrow> Inr (headerTypes @ alignItems, w2)))"

text \<open>
  \<open>onPaste(event)\<close>; \<open>headerTag\<close> is the pasted element \<open>event.detail.data\<close>, an
  element of the document.
\<close>

definition onPaste :: "header \<Rightarrow> nat \<Rightarrow> world \<Rightarrow> error + (header \<times> world)" where
  "onPaste this headerTag w =
     (let (lv0, w1) = currentLevel this w;
          t = tagName (nodes w1 headerTag);
          (lv, w2) =
            (if t = ''H1'' then (1, w1)
             else if t = ''H2'' then (2, w1)
             else if t = ''H3'' then (3, w1)
             else if t = ''H4'' then (4, w1)
             else if t = ''H5'' then (5, w1)
             else if t = ''H6'' then (6, w1)
             else (case userDefaultLevel (config this) w1 of (d, w') \<Rightarrow> (id' d, w')));
          pasted = JStr (innerHTML (nodes w2 headerTag));
          (al, w3) = currentAlignType this w2
      in case normalizeData (config this)
                (JObj [(''text'', pasted), (''level'', JNum lv), (''align'', JStr al)]) w3 of
           Inl e \<Rightarrow> Inl e
         | Inr (d, w4) \<Rightarrow>
            (let this1 = this\<lparr>data := d\<rparr>;
                 (el, w5) = getElement this1 w4
             in Inr (this1\<lparr>element := el\<rparr>, w5)))"

text \<open>
  \<open>merge(data)\<close>. In \<open>this._element.innerHTML + data.text || ''\<close> the \<open>+\<close> binds
  tighter than the \<open>||\<close>.
\<close>

definition merge :: "header \<Rightarrow> jsval \<Rightarrow> world \<Rightarrow> error + world" where
  "merge this data0 w =
     (case get_prop data0 ''text'' of
        Inl e \<Rightarrow> Inl e
      | Inr t \<Rightarrow>
          Inr (set_innerHTML (element this)
                 (js_or (js_add_string (innerHTML (nodes w (element this))) t) (JStr [])) w))"

text \<open>The constructor; an absent or falsy \<open>config\<close> is replaced by the empty object.\<close>

definition constructor ::
    "(jsval \<Rightarrow> jsval) \<Rightarrow> jsval \<Rightarrow> config option \<Rightarrow> jsval \<Rightarrow> world \<Rightarrow> error + (header \<times> world)" where
  "constructor api_t ro cfg data0 w =
     (let c = (case cfg of Some c' \<Rightarrow> c' | None \<Rightarrow> empty_config) in
      case normalizeData c data0 w of
        Inl e \<Rightarrow> Inl e
      | Inr (d, w1) \<Rightarrow>
         (let this0 = \<lparr>i18n_t = api_t, readOnly = ro, config = c, data = d\<rparr>;
              (el, w2) = getElement this0 w1
          in Inr (\<lparr>i18n_t = api_t, readOnly = ro, config = c, data = d, element = el\<rparr>, w2)))"

section \<open>Notions used to state the results\<close>

text \<open>
  The element that \<open>getElement\<close> builds, as the program reads it: tag of the current
  level, the markup the browser returns for the stored text, the wrapper class and the
  class of the current alignment, editability, translated placeholder, and no parent.
\<close>

definition rendered :: "'a header_fields_scheme \<Rightarrow> world \<Rightarrow> node" where
  "rendered this w =
     \<lparr>tagName = tag (fst (currentLevel this w)),
      innerHTML = serialize (browser w) (ToString (js_or (text' (data this)) (JStr []))),
      classList = [CSS_wrapper, wrapperForAlignment (fst (currentAlignType this w))],
      contentEditable = ToString (JBool (\<not> truthy (readOnly this))),
      dataset_placeholder = Some (ToString (i18n_t this (js_or (placeholder (config this)) (JStr [])))),
      parentNode = None, childNodes = []\<rparr>"

text \<open>
  The value of \<open>v.k\<close> for a value \<open>v\<close> other than \<open>undefined\<close> and \<open>null\<close>, used
  to state what \<open>_normalizeData\<close> returns.
\<close>

definition own_property :: "jsval \<Rightarrow> string \<Rightarrow> jsval" where
  "own_property v k =
     (case v of JObj kvs \<Rightarrow> (case map_of kvs k of Some x \<Rightarrow> x | None \<Rightarrow> JUndefined) | _ \<Rightarrow> JUndefined)"

section \<open>States used in the examples\<close>

text \<open>
  The browser on character data. A string that holds no \<open><\<close>, no NUL or carriage
  return and no \<open>&\<close> followed by a letter, a digit or \<open>#\<close> is parsed as one text node,
  and the getter returns it with \<open>&\<close>, \<open>>\<close> and the no-break space escaped. The
  examples assign and read such strings only; any other string, markup with tags or
  character references, is left as it is by \<open>text_markup\<close>, as markup in serialised
  form is.
\<close>

fun has_reference :: "string \<Rightarrow> bool" where
  "has_reference (c # d # cs) =
     ((c = CHR ''&'' \<and> (d = CHR ''#'' \<or>
          (of_char CHR ''0'' \<le> (of_char d :: nat) \<and> (of_char d :: nat) \<le> of_char CHR ''9'') \<or>
          (of_char CHR ''A'' \<le> (of_char d :: nat) \<and> (of_char d :: nat) \<le> of_char CHR ''Z'') \<or>
          (of_char CHR ''a'' \<le> (of_char d :: nat) \<and> (of_char d :: nat) \<le> of_char CHR ''z'')))
      \<or> has_reference (d # cs))"
| "has_reference cs = False"

definition character_data :: "string \<Rightarrow> bool" where
  "character_data s =
     (CHR ''<'' \<notin> set s \<and> char_of (0::nat) \<notin> set s \<and> char_of (13::nat) \<notin> set s \<and>
      \<not> has_reference s)"

fun escape :: "string \<Rightarrow> string" where
  "escape [] = []"
| "escape (c # cs) =
     (if c = CHR ''&'' then ''&amp;'' @ escape cs
      else if c = CHR ''<'' then ''&lt;'' @ escape cs
      else if c = CHR ''>'' then ''&gt;'' @ escape cs
      else if c = char_of (160::nat) then ''&nbsp;'' @ escape cs
      else c # escape cs)"

definition text_markup :: "string \<Rightarrow> string" where
  "text_markup s = (if character_data s then escape s else s)"

lift_definition text_browser :: serializer is text_markup
proof (intro conjI allI)
  have cons: "has_reference (c # cs)" if "has_reference cs" for c cs
    using that by (cases cs) auto
  have changes: "escape s = s \<or> has_reference (escape s)" for s
  proof (induction s)
    case Nil
    show ?case by simp
  next
    case (Cons c cs)
    then show ?case by (auto intro: cons)
  qed
  show "text_markup (text_markup s) = text_markup s" for s
    using changes [of s] by (auto simp: text_markup_def character_data_def)
  show "text_markup [] = []"
    by (simp add: text_markup_def)
qed

definition empty_document :: world where
  "empty_document =
     \<lparr>stored = (\<lambda>_. new_node []), fresh = 0, console = [], browser = text_browser\<rparr>"

text \<open>
  A configuration that allows levels 2 and 3 and the alignments center and right only,
  and the fields of an instance whose stored level 5 and alignment justify are outside
  these allow-lists.
\<close>

definition config_restricted :: config where
  "config_restricted =
     empty_config\<lparr>levels := Some [JNum 2, JNum 3], alignTypes := Some [JStr ''center'', JStr ''right'']\<rparr>"

definition stale_state :: header_fields where
  "stale_state = \<lparr>i18n_t = id, readOnly = JBool False, config = config_restricted,
     data = \<lparr>text' = JStr ''x'', level = JNum 5, align = JStr ''justify''\<rparr>\<rparr>"

text \<open>
  The same instance with stored level 3 and alignment center, which are available; and
  the same instance under a configuration that also names the available defaults level 2
  and alignment right.
\<close>

definition matching_state :: header_fields where
  "matching_state = stale_state\<lparr>data := \<lparr>text' = JStr ''x'', level = JNum 3, align = JStr ''center''\<rparr>\<rparr>"

definition config_restricted_defaults :: config where
  "config_restricted_defaults =
     config_restricted\<lparr>defaultLevel := JNum 2, defaultAlignType := JStr ''right''\<rparr>"

definition defaulted_state :: header_fields where
  "defaulted_state = stale_state\<lparr>config := config_restricted_defaults\<rparr>"

text \<open>
  An instance with default configuration at level 1, aligned right, whose element is
  node 1. In \<open>detached_document\<close> the element has no parent; in \<open>attached_document\<close> it
  is the only child of node 0. Node 2 is an H2 element with markup Hello, as a paste event
  carries it. In \<open>corrupted_document\<close> the class list of the element holds three
  alignment classes.
\<close>

definition example_header :: header where
  "example_header = \<lparr>i18n_t = id, readOnly = JBool False, config = empty_config,
     data = \<lparr>text' = JStr ''Foo'', level = JNum 1, align = JStr ''right''\<rparr>, element = 1\<rparr>"

definition detached_document :: world where
  "detached_document =
     \<lparr>stored = (\<lambda>_. new_node [])
        (0 := new_node ''DIV'',
         1 := \<lparr>tagName = ''H1'', innerHTML = ''Foo'',
                classList = [''ce-header'', ''ce-header-align-right''], contentEditable = ''true'',
                dataset_placeholder = Some [], parentNode = None, childNodes = []\<rparr>,
         2 := (new_node ''H2'')\<lparr>innerHTML := ''Hello''\<rparr>),
      fresh = 3, console = [], browser = text_browser\<rparr>"

definition attached_document :: world where
  "attached_document =
     update_node 0 (\<lambda>n. n\<lparr>childNodes := [1]\<rparr>)
       (update_node 1 (\<lambda>n. n\<lparr>parentNode := Some 0\<rparr>) detached_document)"

definition corrupted_document :: world where
  "corrupted_document =
     update_node 1 (\<lambda>n. n\<lparr>classList := [''ce-header-align-left'', ''ce-header'',
        ''ce-header-align-right'', ''ce-header-align-justify'']\<rparr>) attached_document"

section \<open>Facts about the built-in tables and the conversions\<close>

lemma set_HEADER_LEVELS:
  "l \<in> set HEADER_LEVELS \<Longrightarrow> id' l \<in> {1, 2, 3, 4, 5, 6}"
  by (auto simp: HEADER_LEVELS_def)

lemma HEADER_LEVELS_id_inj:
  "l \<in> set HEADER_LEVELS \<Longrightarrow> l' \<in> set HEADER_LEVELS \<Longrightarrow> id' l = id' l' \<Longrightarrow> l = l'"
  by (auto simp: HEADER_LEVELS_def)

lemma availableLevels_subset: "set (availableLevels c) \<subseteq> set HEADER_LEVELS"
  by (auto simp: availableLevels_def split: option.splits)

lemma find_unique:
  assumes "x \<in> set xs" "P x" "\<And>y. y \<in> set xs \<Longrightarrow> P y \<Longrightarrow> y = x"
  shows "find P xs = Some x"
proof (cases "find P xs")
  case None
  with assms(1,2) show ?thesis by (auto simp: find_None_iff)
next
  case (Some y)
  then have "y \<in> set xs" "P y" by (auto simp: find_Some_iff in_set_conv_nth)
  with assms(3) Some show ?thesis by simp
qed

lemma find_level:
  assumes "l \<in> set (availableLevels c)" "JNum (id' l) = v"
  shows "find (\<lambda>levelItem. JNum (id' levelItem) = v) (availableLevels c) = Some l"
proof (rule find_unique)
  show "l \<in> set (availableLevels c)" by (rule assms(1))
  show "JNum (id' l) = v" by (rule assms(2))
  fix y assume "y \<in> set (availableLevels c)" "JNum (id' y) = v"
  with assms availableLevels_subset show "y = l"
    by (auto intro: HEADER_LEVELS_id_inj)
qed

lemma parseInt_consts:
  "parseInt JUndefined = JNaN" "parseInt JNull = JNaN" "parseInt (JBool False) = JNaN"
  "parseInt JNaN = JNaN" "parseInt (JNum 0) = JNum 0" "parseInt (JStr []) = JNaN"
  by code_simp+

lemma parseInt_ids:
  "parseInt (JNum 1) = JNum 1" "parseInt (JNum 2) = JNum 2" "parseInt (JNum 3) = JNum 3"
  "parseInt (JNum 4) = JNum 4" "parseInt (JNum 5) = JNum 5" "parseInt (JNum 6) = JNum 6"
  by code_simp+

text \<open>
  Numbers are printed as \<open>String\<close> prints doubles, in exponent form from \<open>10^21\<close> on:
  \<open>parseInt\<close> of the number \<open>2 * 10^21\<close> reads the numeral \<open>2e+21\<close> and answers 2,
  and of a fraction it answers the integer part.
\<close>

lemma magnitude_string_exponent:
  assumes "nearest_double a = x" "x < 2 ^ 1024" "length (digits (nat x)) = n"
    and "first_decimal x n [1..<n] = v" "digits (nat v) = ds" "\<not> v < 10 ^ 21"
    and "strip_zeros ds = sd" "length sd = 1" "digits (length ds - 1) = ex"
  shows "magnitude_string a = take 1 sd @ ''e+'' @ ex"
  using assms by (simp add: magnitude_string_def Let_def)

lemma digit_char_simps:
  "digit_char 0 = CHR ''0''" "digit_char (Suc 0) = CHR ''1''" "digit_char 2 = CHR ''2''"
  by code_simp+

lemma number_string_exponent: "number_string 2000000000000000000000 = ''2e+21''"
proof -
  let ?x = "2000000000000000000000 :: int"
  let ?ds = "''2000000000000000000000''"
  have bl: "bit_length ?x = 71" "bit_length 3000000000000000000000 = 72"
    by (simp_all add: bit_length.simps)
  have nd: "nearest_double ?x = ?x"
    by (simp add: nearest_double_def bl Let_def)
  have nd3: "nearest_double 3000000000000000000000 \<noteq> ?x"
    by (simp add: nearest_double_def bl Let_def)
  have dw: "decimal_with ?x 22 (Suc 0) = Some ?x"
    by (simp add: decimal_with_def nd nd3 Let_def)
  have dg: "digits (nat ?x) = ?ds"
    by (simp add: digits.simps digit_char_simps)
  have len: "length (digits (nat ?x)) = 22"
    unfolding dg by simp
  have "[1..<22] = 1 # [2..<22]"
    by (simp add: upt_conv_Cons)
  then have fd: "first_decimal ?x 22 [1..<22] = ?x"
    by (simp add: dw)
  have sz: "strip_zeros ?ds = ''2''"
    by (simp add: strip_zeros_def)
  have ex: "digits (length ?ds - 1) = ''21''"
    by (simp add: digits.simps digit_char_simps)
  have "magnitude_string ?x = take 1 ''2'' @ ''e+'' @ ''21''"
    by (rule magnitude_string_exponent [OF nd _ len fd dg _ sz _ ex]) simp_all
  then show ?thesis
    by (simp add: number_string_def)
qed

lemma parseInt_exponent: "parseInt (JNum 2000000000000000000000) = JNum 2"
proof -
  have "parseInt_str ''2e+21'' = JNum 2" by code_simp
  then show ?thesis by (simp add: parseInt_def number_string_exponent)
qed

lemma parseInt_examples:
  "parseInt (JDouble ''2.5'') = JNum 2" "parseInt (JDouble ''1e-7'') = JNum 1"
  "parseInt (JDouble ''Infinity'') = JNaN" "parseInt (JStr '' 3rd'') = JNum 3"
  "parseInt (JStr ''-4.5'') = JNum (- 4)" "parseInt (JStr ''0x10'') = JNum 0"
  "parseInt (JBool True) = JNaN"
  by code_simp+

lemma parseInt_falsy:
  assumes "\<not> truthy v"
  shows "parseInt v = JNaN \<or> parseInt v = JNum 0"
  using assms by (cases v) (auto simp: parseInt_consts)

lemma parseInt_falsy_no_level:
  assumes "\<not> truthy v" "l \<in> set (availableLevels c)"
  shows "JNum (id' l) \<noteq> parseInt v"
  using parseInt_falsy [OF assms(1)] set_HEADER_LEVELS [of l] availableLevels_subset [of c] assms(2)
  by auto

lemma serialize_idem: "serialize b (serialize b s) = serialize b s"
  using serialize [of b] by simp

lemma serialize_empty: "serialize b [] = []"
  using serialize [of b] by simp

section \<open>Reading the document after an update\<close>

lemma nodes_console: "nodes (w\<lparr>console := c\<rparr>) = nodes w"
  by (simp add: nodes_def fun_eq_iff)

lemma update_node_fields:
  "fresh (update_node el f w) = fresh w" "console (update_node el f w) = console w"
  "browser (update_node el f w) = browser w"
  by (simp_all add: update_node_def)

lemma nodes_update_other: "n \<noteq> el \<Longrightarrow> nodes (update_node el f w) n = nodes w n"
  by (simp add: nodes_def update_node_def)

lemma nodes_update_keep:
  assumes "\<And>n s. f (n\<lparr>innerHTML := s\<rparr>) = (f n)\<lparr>innerHTML := s\<rparr>"
  shows "nodes (update_node el f w) = (nodes w)(el := f (nodes w el))"
proof -
  have "innerHTML (f n) = innerHTML n" for n
  proof -
    have "f n = f (n\<lparr>innerHTML := innerHTML n\<rparr>)" by simp
    also have "\<dots> = (f n)\<lparr>innerHTML := innerHTML n\<rparr>" by (rule assms)
    finally have "innerHTML (f n) = innerHTML ((f n)\<lparr>innerHTML := innerHTML n\<rparr>)" by simp
    then show ?thesis by simp
  qed
  then show ?thesis
    by (simp add: nodes_def update_node_def fun_eq_iff assms)
qed

lemma nodes_set_innerHTML:
  "nodes (set_innerHTML el v w) =
     (nodes w)(el := (nodes w el)\<lparr>innerHTML :=
        serialize (browser w) (if v = JNull then [] else ToString v)\<rparr>)"
  by (simp add: nodes_def set_innerHTML_def update_node_def fun_eq_iff)

lemma set_innerHTML_fields:
  "fresh (set_innerHTML el v w) = fresh w" "console (set_innerHTML el v w) = console w"
  "browser (set_innerHTML el v w) = browser w"
  by (simp_all add: set_innerHTML_def update_node_fields)

lemma nodes_classList_add:
  "nodes (classList_add el toks w) =
     (nodes w)(el := (nodes w el)\<lparr>classList := foldl token_add (classList (nodes w el)) toks\<rparr>)"
  by (simp add: nodes_def classList_add_def update_node_def fun_eq_iff)

lemma nodes_classList_remove:
  "nodes (classList_remove el tok w) =
     (nodes w)(el := (nodes w el)\<lparr>classList := filter (\<lambda>c. c \<noteq> tok) (classList (nodes w el))\<rparr>)"
  by (simp add: nodes_def classList_remove_def update_node_def fun_eq_iff)

lemma classList_fields:
  "fresh (classList_add el toks w) = fresh w" "browser (classList_add el toks w) = browser w"
  "fresh (classList_remove el tok w) = fresh w" "browser (classList_remove el tok w) = browser w"
  by (simp_all add: classList_add_def classList_remove_def update_node_fields)

lemma nodes_createElement:
  "nodes (snd (createElement t w)) = (nodes w)(fresh w := new_node t)"
  by (simp add: nodes_def createElement_def fun_eq_iff new_node_def serialize_empty)

lemma createElement_fields:
  "fst (createElement t w) = fresh w" "fresh (snd (createElement t w)) = Suc (fresh w)"
  "browser (snd (createElement t w)) = browser w" "console (snd (createElement t w)) = console w"
  by (simp_all add: createElement_def)

section \<open>The resolved defaults\<close>

lemma userDefaultLevel_found:
  assumes "l \<in> set (availableLevels c)" "JNum (id' l) = parseInt (defaultLevel c)"
  shows "userDefaultLevel c w = (l, w)"
proof -
  have t: "truthy (defaultLevel c)"
    using parseInt_falsy_no_level [of "defaultLevel c" l c] assms by auto
  have "find (\<lambda>levelItem. JNum (id' levelItem) = parseInt (defaultLevel c)) (availableLevels c) = Some l"
    using assms by (intro find_level) auto
  with t show ?thesis by (simp add: userDefaultLevel_def)
qed

lemma userDefaultLevel_not_found:
  assumes "\<forall>l \<in> set (availableLevels c). JNum (id' l) \<noteq> parseInt (defaultLevel c)"
  shows "userDefaultLevel c w =
    (DEFAULT_HEADER_LEVEL,
     if truthy (defaultLevel c) then w\<lparr>console := console w @ [level_warning]\<rparr> else w)"
proof -
  have "find (\<lambda>levelItem. JNum (id' levelItem) = parseInt (defaultLevel c)) (availableLevels c) = None"
    using assms by (simp add: find_None_iff)
  then show ?thesis by (simp add: userDefaultLevel_def warn_def)
qed

lemma availableAlignTypes_subset: "set (availableAlignTypes c) \<subseteq> set ALIGN_TYPES"
  by (auto simp: availableAlignTypes_def split: option.splits)

lemma availableAlignTypes_nonempty: "a \<in> set (availableAlignTypes c) \<Longrightarrow> a \<noteq> []"
  using availableAlignTypes_subset [of c] by (auto simp: ALIGN_TYPES_def)

lemma find_align:
  assumes "a \<in> set xs"
  shows "find (\<lambda>x. JStr x = JStr a) xs = Some a"
  by (rule find_unique) (use assms in auto)

lemma userDefaultAlignType_found:
  assumes "a \<in> set (availableAlignTypes c)" "JStr a = defaultAlignType c"
  shows "userDefaultAlignType c w = (a, w)"
  using find_align [OF assms(1)] availableAlignTypes_nonempty [OF assms(1)] assms(2) [symmetric]
  by (simp add: userDefaultAlignType_def)

lemma userDefaultAlignType_not_found:
  assumes "\<forall>a \<in> set (availableAlignTypes c). JStr a \<noteq> defaultAlignType c"
  shows "userDefaultAlignType c w =
    (DEFAULT_ALIGN_TYPE,
     if truthy (defaultAlignType c) then w\<lparr>console := console w @ [align_warning]\<rparr> else w)"
proof -
  have "find (\<lambda>align. JStr align = defaultAlignType c) (availableAlignTypes c) = None"
    using assms by (simp add: find_None_iff)
  then show ?thesis by (simp add: userDefaultAlignType_def warn_def)
qed

text \<open>
  Claim C5. If an available level has the id that \<open>parseInt(defaultLevel, 10)\<close> gives,
  \<open>userDefaultLevel\<close> is that level and nothing is written to the console. If no
  available level has it (the option is absent, is not a number, or names a level that is
  not available), the result is the built-in level 1 with tag H1; the console then
  receives the warning as its last line when \<open>defaultLevel\<close> was given (is truthy) and
  is unchanged when it was not, and nothing else changes. The getter returns in every
  case: it is a total function and has no error result.
\<close>

theorem userDefaultLevel_resolution:
  "(l \<in> set (availableLevels c) \<and> JNum (id' l) = parseInt (defaultLevel c)
      \<longrightarrow> userDefaultLevel c w = (l, w)) \<and>
   ((\<forall>l \<in> set (availableLevels c). JNum (id' l) \<noteq> parseInt (defaultLevel c))
      \<longrightarrow> fst (userDefaultLevel c w) = DEFAULT_HEADER_LEVEL \<and>
          console (snd (userDefaultLevel c w)) =
            (if truthy (defaultLevel c) then console w @ [level_warning] else console w) \<and>
          stored (snd (userDefaultLevel c w)) = stored w \<and>
          fresh (snd (userDefaultLevel c w)) = fresh w \<and>
          browser (snd (userDefaultLevel c w)) = browser w) \<and>
   id' DEFAULT_HEADER_LEVEL = 1 \<and> tag DEFAULT_HEADER_LEVEL = ''H1''"
proof (intro conjI impI)
  assume "l \<in> set (availableLevels c) \<and> JNum (id' l) = parseInt (defaultLevel c)"
  then show "userDefaultLevel c w = (l, w)"
    by (intro userDefaultLevel_found) auto
next
  assume a: "\<forall>l \<in> set (availableLevels c). JNum (id' l) \<noteq> parseInt (defaultLevel c)"
  note r = userDefaultLevel_not_found [OF a, of w]
  show "fst (userDefaultLevel c w) = DEFAULT_HEADER_LEVEL" by (simp add: r)
  show "console (snd (userDefaultLevel c w)) =
      (if truthy (defaultLevel c) then console w @ [level_warning] else console w)"
    by (simp add: r)
  show "stored (snd (userDefaultLevel c w)) = stored w" by (simp add: r)
  show "fresh (snd (userDefaultLevel c w)) = fresh w" by (simp add: r)
  show "browser (snd (userDefaultLevel c w)) = browser w" by (simp add: r)
qed (simp_all add: DEFAULT_HEADER_LEVEL_def)

theorem userDefaultLevel_resolution_witness:
  "userDefaultLevel (empty_config\<lparr>levels := Some [JNum 2, JNum 3], defaultLevel := JStr ''3''\<rparr>)
      empty_document = (\<lparr>id' = 3, tag = ''H3'', icon = h3Icon\<rparr>, empty_document) \<and>
   fst (userDefaultLevel (empty_config\<lparr>levels := Some [JNum 2, JNum 3], defaultLevel := JNum 5\<rparr>)
      empty_document) = DEFAULT_HEADER_LEVEL \<and>
   console (snd (userDefaultLevel
      (empty_config\<lparr>levels := Some [JNum 2, JNum 3], defaultLevel := JNum 5\<rparr>) empty_document)) =
     [level_warning] \<and>
   fst (userDefaultLevel (empty_config\<lparr>levels := Some [JNum 2, JNum 3]\<rparr>) empty_document) =
     DEFAULT_HEADER_LEVEL \<and>
   console (snd (userDefaultLevel (empty_config\<lparr>levels := Some [JNum 2, JNum 3]\<rparr>)
      empty_document)) = [] \<and>
   userDefaultLevel (empty_config\<lparr>defaultLevel := JNum 2000000000000000000000\<rparr>)
      empty_document = (\<lparr>id' = 2, tag = ''H2'', icon = h2Icon\<rparr>, empty_document)"
proof -
  let ?c1 = "empty_config\<lparr>levels := Some [JNum 2, JNum 3], defaultLevel := JStr ''3''\<rparr>"
  let ?c2 = "empty_config\<lparr>levels := Some [JNum 2, JNum 3], defaultLevel := JNum 5\<rparr>"
  let ?c3 = "empty_config\<lparr>levels := Some [JNum 2, JNum 3]\<rparr>"
  let ?c4 = "empty_config\<lparr>defaultLevel := JNum 2000000000000000000000\<rparr>"
  let ?l = "\<lparr>id' = 3, tag = ''H3'', icon = h3Icon\<rparr>"
  let ?l2 = "\<lparr>id' = 2, tag = ''H2'', icon = h2Icon\<rparr>"
  have p3: "parseInt (JStr ''3'') = JNum 3" by code_simp
  have h1: "?l \<in> set (availableLevels ?c1) \<and> JNum (id' ?l) = parseInt (defaultLevel ?c1)"
    by (simp add: availableLevels_def HEADER_LEVELS_def array_includes_def p3)
  have h2: "\<forall>l \<in> set (availableLevels ?c2). JNum (id' l) \<noteq> parseInt (defaultLevel ?c2)"
    by (simp add: availableLevels_def HEADER_LEVELS_def array_includes_def parseInt_ids)
  have h3: "\<forall>l \<in> set (availableLevels ?c3). JNum (id' l) \<noteq> parseInt (defaultLevel ?c3)"
    by (simp add: availableLevels_def HEADER_LEVELS_def array_includes_def parseInt_consts
        empty_config_def)
  have e: "console empty_document = []" by (simp add: empty_document_def)
  from userDefaultLevel_resolution [of ?l ?c1 empty_document] h1
  have r1: "userDefaultLevel ?c1 empty_document = (?l, empty_document)" by blast
  from userDefaultLevel_resolution [of ?l ?c2 empty_document] h2
  have r2: "fst (userDefaultLevel ?c2 empty_document) = DEFAULT_HEADER_LEVEL"
    "console (snd (userDefaultLevel ?c2 empty_document)) = [level_warning]"
    by (simp_all add: e)
  from userDefaultLevel_resolution [of ?l ?c3 empty_document] h3
  have r3: "fst (userDefaultLevel ?c3 empty_document) = DEFAULT_HEADER_LEVEL"
    "console (snd (userDefaultLevel ?c3 empty_document)) = []"
    by (simp_all add: e empty_config_def)
  have h4: "?l2 \<in> set (availableLevels ?c4) \<and> JNum (id' ?l2) = parseInt (defaultLevel ?c4)"
    by (simp add: availableLevels_def HEADER_LEVELS_def empty_config_def parseInt_exponent)
  from userDefaultLevel_resolution [of ?l2 ?c4 empty_document] h4
  have r4: "userDefaultLevel ?c4 empty_document = (?l2, empty_document)" by blast
  from r1 r2 r3 r4 show ?thesis by blast
qed

section \<open>Available levels and alignments\<close>

text \<open>
  Claim C7. With an allow-list \<open>L\<close> of levels, \<open>availableLevels\<close> is the built-in list
  of six levels restricted to the levels whose id is an element of \<open>L\<close>: it is a
  subsequence of the built-in list (the built-in order is kept) with exactly those
  members. With an allow-list \<open>A\<close> of alignments, \<open>availableAlignTypes\<close> is the built-in
  list of four names restricted to the elements of \<open>A\<close> in the same way. Without an
  allow-list the whole built-in list is returned.
\<close>

theorem available_intersection:
  "(case levels c of
      None \<Rightarrow> availableLevels c = HEADER_LEVELS
    | Some L \<Rightarrow>
        availableLevels c = filter (\<lambda>l. JNum (id' l) \<in> set L) HEADER_LEVELS \<and>
        subseq (availableLevels c) HEADER_LEVELS \<and>
        set (availableLevels c) = {l \<in> set HEADER_LEVELS. JNum (id' l) \<in> set L}) \<and>
   (case alignTypes c of
      None \<Rightarrow> availableAlignTypes c = ALIGN_TYPES
    | Some A \<Rightarrow>
        availableAlignTypes c = filter (\<lambda>a. JStr a \<in> set A) ALIGN_TYPES \<and>
        subseq (availableAlignTypes c) ALIGN_TYPES \<and>
        set (availableAlignTypes c) = {a \<in> set ALIGN_TYPES. JStr a \<in> set A})"
proof -
  have lv: "availableLevels c = filter (\<lambda>l. JNum (id' l) \<in> set L) HEADER_LEVELS"
    if "levels c = Some L" for L
    using that by (simp add: availableLevels_def array_includes_def)
  have al: "availableAlignTypes c = filter (\<lambda>a. JStr a \<in> set A) ALIGN_TYPES"
    if "alignTypes c = Some A" for A
    using that by (simp add: availableAlignTypes_def array_includes_def)
  show ?thesis
  proof (intro conjI)
    show "case levels c of
        None \<Rightarrow> availableLevels c = HEADER_LEVELS
      | Some L \<Rightarrow>
          availableLevels c = filter (\<lambda>l. JNum (id' l) \<in> set L) HEADER_LEVELS \<and>
          subseq (availableLevels c) HEADER_LEVELS \<and>
          set (availableLevels c) = {l \<in> set HEADER_LEVELS. JNum (id' l) \<in> set L}"
    proof (cases "levels c")
      case None
      then show ?thesis by (simp add: availableLevels_def)
    next
      case (Some L)
      from lv [OF Some] Some show ?thesis by auto
    qed
    show "case alignTypes c of
        None \<Rightarrow> availableAlignTypes c = ALIGN_TYPES
      | Some A \<Rightarrow>
          availableAlignTypes c = filter (\<lambda>a. JStr a \<in> set A) ALIGN_TYPES \<and>
          subseq (availableAlignTypes c) ALIGN_TYPES \<and>
          set (availableAlignTypes c) = {a \<in> set ALIGN_TYPES. JStr a \<in> set A}"
    proof (cases "alignTypes c")
      case None
      then show ?thesis by (simp add: availableAlignTypes_def)
    next
      case (Some A)
      from al [OF Some] Some show ?thesis by auto
    qed
  qed
qed

section \<open>The resolved current level and alignment\<close>

lemma fst_userDefaultLevel: "fst (userDefaultLevel c w) = fst (userDefaultLevel c w')"
  by (simp add: userDefaultLevel_def split: option.splits)

lemma fst_userDefaultAlignType: "fst (userDefaultAlignType c w) = fst (userDefaultAlignType c w')"
  by (simp add: userDefaultAlignType_def split: option.splits)

lemma fst_currentLevel: "fst (currentLevel this w) = fst (currentLevel this w')"
  using fst_userDefaultLevel [of "config this" w w']
  by (simp add: currentLevel_def split: option.splits)

lemma fst_currentAlignType: "fst (currentAlignType this w) = fst (currentAlignType this w')"
  using fst_userDefaultAlignType [of "config this" w w']
  by (simp add: currentAlignType_def split: option.splits)

lemma userDefaultLevel_mem:
  "fst (userDefaultLevel c w) \<in> set (availableLevels c) \<union> {DEFAULT_HEADER_LEVEL}"
  by (auto simp: userDefaultLevel_def find_Some_iff split: option.splits)

lemma userDefaultAlignType_mem:
  "fst (userDefaultAlignType c w) \<in> set (availableAlignTypes c) \<union> {DEFAULT_ALIGN_TYPE}"
  by (auto simp: userDefaultAlignType_def find_Some_iff split: option.splits)

lemma currentLevel_mem:
  "fst (currentLevel this w) \<in> set (availableLevels (config this)) \<union> {DEFAULT_HEADER_LEVEL}"
  using userDefaultLevel_mem [of "config this" w]
  by (auto simp: currentLevel_def find_Some_iff split: option.splits)

lemma currentAlignType_mem:
  "fst (currentAlignType this w) \<in> set (availableAlignTypes (config this)) \<union> {DEFAULT_ALIGN_TYPE}"
  using userDefaultAlignType_mem [of "config this" w]
  by (auto simp: currentAlignType_def find_Some_iff split: option.splits)

lemma save_fields:
  "fst (save this b w) =
     \<lparr>text' = JStr (innerHTML (nodes w b)), level = JNum (id' (fst (currentLevel this w))),
      align = JStr (fst (currentAlignType this w))\<rparr>"
  using fst_currentAlignType [of this "snd (currentLevel this w)" w]
  by (simp add: save_def split_beta Let_def)

lemma currentLevel_found:
  assumes "l \<in> set (availableLevels (config this))" "level (data this) = JNum (id' l)"
  shows "currentLevel this w = (l, w)"
  using find_level [OF assms(1), of "level (data this)"] assms(2)
  by (simp add: currentLevel_def)

lemma currentLevel_not_found:
  assumes "\<forall>l \<in> set (availableLevels (config this)). JNum (id' l) \<noteq> level (data this)"
  shows "currentLevel this w = userDefaultLevel (config this) w"
proof -
  have "find (\<lambda>levelItem. JNum (id' levelItem) = level (data this))
      (availableLevels (config this)) = None"
    using assms by (simp add: find_None_iff)
  then show ?thesis by (simp add: currentLevel_def)
qed

lemma currentAlignType_found:
  assumes "a \<in> set (availableAlignTypes (config this))" "align (data this) = JStr a"
  shows "currentAlignType this w = (a, w)"
  using find_align [OF assms(1)] availableAlignTypes_nonempty [OF assms(1)] assms(2)
  by (simp add: currentAlignType_def)

lemma currentAlignType_not_found:
  assumes "\<forall>a \<in> set (availableAlignTypes (config this)). JStr a \<noteq> align (data this)"
  shows "currentAlignType this w = userDefaultAlignType (config this) w"
proof -
  have "find (\<lambda>a. JStr a = align (data this)) (availableAlignTypes (config this)) = None"
    using assms by (simp add: find_None_iff)
  then show ?thesis by (simp add: currentAlignType_def)
qed

lemma currentLevel_outside:
  assumes "fst (currentLevel this w) \<notin> set (availableLevels (config this))"
  shows "fst (currentLevel this w) = DEFAULT_HEADER_LEVEL \<and>
    (\<forall>l \<in> set (availableLevels (config this)).
        JNum (id' l) \<noteq> level (data this) \<and> JNum (id' l) \<noteq> parseInt (defaultLevel (config this)))"
proof (intro conjI ballI)
  show "fst (currentLevel this w) = DEFAULT_HEADER_LEVEL"
    using assms currentLevel_mem [of this w] by auto
next
  fix l assume l: "l \<in> set (availableLevels (config this))"
  show "JNum (id' l) \<noteq> level (data this)"
  proof
    assume "JNum (id' l) = level (data this)"
    then have "currentLevel this w = (l, w)" using l by (intro currentLevel_found) auto
    with assms l show False by simp
  qed
  have none: "\<forall>l \<in> set (availableLevels (config this)). JNum (id' l) \<noteq> level (data this)"
  proof
    fix k assume k: "k \<in> set (availableLevels (config this))"
    show "JNum (id' k) \<noteq> level (data this)"
    proof
      assume "JNum (id' k) = level (data this)"
      then have "currentLevel this w = (k, w)" using k by (intro currentLevel_found) auto
      with assms k show False by simp
    qed
  qed
  show "JNum (id' l) \<noteq> parseInt (defaultLevel (config this))"
  proof
    assume "JNum (id' l) = parseInt (defaultLevel (config this))"
    then have "userDefaultLevel (config this) w = (l, w)" using l by (intro userDefaultLevel_found)
    with currentLevel_not_found [OF none, of w] assms l show False by simp
  qed
qed

lemma currentAlignType_outside:
  assumes "fst (currentAlignType this w) \<notin> set (availableAlignTypes (config this))"
  shows "fst (currentAlignType this w) = DEFAULT_ALIGN_TYPE \<and>
    (\<forall>a \<in> set (availableAlignTypes (config this)).
        JStr a \<noteq> align (data this) \<and> JStr a \<noteq> defaultAlignType (config this))"
proof (intro conjI ballI)
  show "fst (currentAlignType this w) = DEFAULT_ALIGN_TYPE"
    using assms currentAlignType_mem [of this w] by auto
next
  have none: "\<forall>a \<in> set (availableAlignTypes (config this)). JStr a \<noteq> align (data this)"
  proof
    fix k assume k: "k \<in> set (availableAlignTypes (config this))"
    show "JStr k \<noteq> align (data this)"
    proof
      assume "JStr k = align (data this)"
      then have "currentAlignType this w = (k, w)" using k by (intro currentAlignType_found) auto
      with assms k show False by simp
    qed
  qed
  fix a assume a: "a \<in> set (availableAlignTypes (config this))"
  from none a show "JStr a \<noteq> align (data this)" by blast
  show "JStr a \<noteq> defaultAlignType (config this)"
  proof
    assume "JStr a = defaultAlignType (config this)"
    then have "userDefaultAlignType (config this) w = (a, w)"
      using a by (intro userDefaultAlignType_found)
    with currentAlignType_not_found [OF none, of w] assms a show False by simp
  qed
qed

text \<open>
  Claim C4, as amended. The resolved current level is the available level whose id is
  the stored level, when there is one. When the stored level matches no available level,
  it is the resolved default level: the available level that \<open>defaultLevel\<close> names, when
  there is one, and the built-in level 1 otherwise, whether or not level 1 is available.
  So the resolved current level is a member of the available levels except when neither
  the stored level nor \<open>defaultLevel\<close> names an available level; then it is the built-in
  level 1. The same holds of the alignment, with \<open>defaultAlignType\<close> and the built-in
  \<open>left\<close>. Both getters are total functions without an error result. The \<open>level\<close> and
  \<open>align\<close> fields of what \<open>save\<close> returns are the id and the name so resolved.
\<close>

theorem current_resolution:
  "(l \<in> set (availableLevels (config this)) \<and> JNum (id' l) = level (data this)
      \<longrightarrow> currentLevel this w = (l, w)) \<and>
   ((\<forall>l \<in> set (availableLevels (config this)). JNum (id' l) \<noteq> level (data this))
      \<longrightarrow> currentLevel this w = userDefaultLevel (config this) w) \<and>
   (d \<in> set (availableLevels (config this)) \<and> JNum (id' d) = parseInt (defaultLevel (config this))
      \<longrightarrow> userDefaultLevel (config this) w = (d, w)) \<and>
   ((\<forall>l \<in> set (availableLevels (config this)). JNum (id' l) \<noteq> parseInt (defaultLevel (config this)))
      \<longrightarrow> fst (userDefaultLevel (config this) w) = DEFAULT_HEADER_LEVEL) \<and>
   (fst (currentLevel this w) \<notin> set (availableLevels (config this))
      \<longrightarrow> fst (currentLevel this w) = DEFAULT_HEADER_LEVEL \<and>
          (\<forall>l \<in> set (availableLevels (config this)).
              JNum (id' l) \<noteq> level (data this) \<and>
              JNum (id' l) \<noteq> parseInt (defaultLevel (config this)))) \<and>
   (a \<in> set (availableAlignTypes (config this)) \<and> JStr a = align (data this)
      \<longrightarrow> currentAlignType this w = (a, w)) \<and>
   ((\<forall>a \<in> set (availableAlignTypes (config this)). JStr a \<noteq> align (data this))
      \<longrightarrow> currentAlignType this w = userDefaultAlignType (config this) w) \<and>
   (e \<in> set (availableAlignTypes (config this)) \<and> JStr e = defaultAlignType (config this)
      \<longrightarrow> userDefaultAlignType (config this) w = (e, w)) \<and>
   ((\<forall>a \<in> set (availableAlignTypes (config this)). JStr a \<noteq> defaultAlignType (config this))
      \<longrightarrow> fst (userDefaultAlignType (config this) w) = DEFAULT_ALIGN_TYPE) \<and>
   (fst (currentAlignType this w) \<notin> set (availableAlignTypes (config this))
      \<longrightarrow> fst (currentAlignType this w) = DEFAULT_ALIGN_TYPE \<and>
          (\<forall>a \<in> set (availableAlignTypes (config this)).
              JStr a \<noteq> align (data this) \<and> JStr a \<noteq> defaultAlignType (config this))) \<and>
   level (fst (save this b w)) = JNum (id' (fst (currentLevel this w))) \<and>
   align (fst (save this b w)) = JStr (fst (currentAlignType this w))"
proof -
  have c1: "l \<in> set (availableLevels (config this)) \<and> JNum (id' l) = level (data this)
      \<longrightarrow> currentLevel this w = (l, w)"
    by (auto intro: currentLevel_found)
  have c2: "(\<forall>l \<in> set (availableLevels (config this)). JNum (id' l) \<noteq> level (data this))
      \<longrightarrow> currentLevel this w = userDefaultLevel (config this) w"
    by (auto intro: currentLevel_not_found)
  have c3: "d \<in> set (availableLevels (config this)) \<and>
      JNum (id' d) = parseInt (defaultLevel (config this))
      \<longrightarrow> userDefaultLevel (config this) w = (d, w)"
    by (auto intro: userDefaultLevel_found)
  have c4: "(\<forall>l \<in> set (availableLevels (config this)).
        JNum (id' l) \<noteq> parseInt (defaultLevel (config this)))
      \<longrightarrow> fst (userDefaultLevel (config this) w) = DEFAULT_HEADER_LEVEL"
    by (simp add: userDefaultLevel_not_found)
  have c5: "fst (currentLevel this w) \<notin> set (availableLevels (config this))
      \<longrightarrow> fst (currentLevel this w) = DEFAULT_HEADER_LEVEL \<and>
          (\<forall>l \<in> set (availableLevels (config this)).
              JNum (id' l) \<noteq> level (data this) \<and>
              JNum (id' l) \<noteq> parseInt (defaultLevel (config this)))"
    using currentLevel_outside [of this w] by blast
  have c6: "a \<in> set (availableAlignTypes (config this)) \<and> JStr a = align (data this)
      \<longrightarrow> currentAlignType this w = (a, w)"
    by (auto intro: currentAlignType_found)
  have c7: "(\<forall>a \<in> set (availableAlignTypes (config this)). JStr a \<noteq> align (data this))
      \<longrightarrow> currentAlignType this w = userDefaultAlignType (config this) w"
    by (auto intro: currentAlignType_not_found)
  have c8: "e \<in> set (availableAlignTypes (config this)) \<and> JStr e = defaultAlignType (config this)
      \<longrightarrow> userDefaultAlignType (config this) w = (e, w)"
    by (auto intro: userDefaultAlignType_found)
  have c9: "(\<forall>a \<in> set (availableAlignTypes (config this)). JStr a \<noteq> defaultAlignType (config this))
      \<longrightarrow> fst (userDefaultAlignType (config this) w) = DEFAULT_ALIGN_TYPE"
    by (simp add: userDefaultAlignType_not_found)
  have c10: "fst (currentAlignType this w) \<notin> set (availableAlignTypes (config this))
      \<longrightarrow> fst (currentAlignType this w) = DEFAULT_ALIGN_TYPE \<and>
          (\<forall>a \<in> set (availableAlignTypes (config this)).
              JStr a \<noteq> align (data this) \<and> JStr a \<noteq> defaultAlignType (config this))"
    using currentAlignType_outside [of this w] by blast
  have c11: "level (fst (save this b w)) = JNum (id' (fst (currentLevel this w)))"
    by (simp add: save_fields)
  have c12: "align (fst (save this b w)) = JStr (fst (currentAlignType this w))"
    by (simp add: save_fields)
  show ?thesis
    by (intro conjI; fact c1 c2 c3 c4 c5 c6 c7 c8 c9 c10 c11 c12)
qed

theorem current_resolution_witness:
  "currentLevel matching_state empty_document = (\<lparr>id' = 3, tag = ''H3'', icon = h3Icon\<rparr>, empty_document) \<and>
   currentAlignType matching_state empty_document = (''center'', empty_document) \<and>
   currentLevel defaulted_state empty_document = (\<lparr>id' = 2, tag = ''H2'', icon = h2Icon\<rparr>, empty_document) \<and>
   currentAlignType defaulted_state empty_document = (''right'', empty_document) \<and>
   fst (currentLevel stale_state empty_document) = DEFAULT_HEADER_LEVEL \<and>
   fst (currentAlignType stale_state empty_document) = DEFAULT_ALIGN_TYPE \<and>
   level (fst (save stale_state 0 empty_document)) = JNum 1 \<and>
   align (fst (save stale_state 0 empty_document)) = JStr ''left''"
proof -
  let ?h3 = "\<lparr>id' = 3, tag = ''H3'', icon = h3Icon\<rparr>"
  let ?h2 = "\<lparr>id' = 2, tag = ''H2'', icon = h2Icon\<rparr>"
  have av: "availableLevels config_restricted = [?h2, ?h3]"
    "availableAlignTypes config_restricted = [''center'', ''right'']"
    "availableLevels config_restricted_defaults = [?h2, ?h3]"
    "availableAlignTypes config_restricted_defaults = [''center'', ''right'']"
    by (simp_all add: config_restricted_defaults_def config_restricted_def availableLevels_def
        availableAlignTypes_def HEADER_LEVELS_def ALIGN_TYPES_def array_includes_def)
  have m: "config matching_state = config_restricted"
    "data matching_state = \<lparr>text' = JStr ''x'', level = JNum 3, align = JStr ''center''\<rparr>"
    by (simp_all add: matching_state_def stale_state_def)
  have d: "config defaulted_state = config_restricted_defaults"
    "data defaulted_state = \<lparr>text' = JStr ''x'', level = JNum 5, align = JStr ''justify''\<rparr>"
    "defaultLevel config_restricted_defaults = JNum 2"
    "defaultAlignType config_restricted_defaults = JStr ''right''"
    by (simp_all add: defaulted_state_def stale_state_def config_restricted_defaults_def)
  have s: "config stale_state = config_restricted"
    "data stale_state = \<lparr>text' = JStr ''x'', level = JNum 5, align = JStr ''justify''\<rparr>"
    "defaultLevel config_restricted = JUndefined" "defaultAlignType config_restricted = JUndefined"
    by (simp_all add: stale_state_def config_restricted_def empty_config_def)
  note t1 = current_resolution [of ?h3 matching_state empty_document ?h2 "''center''" "''right''" 0]
  note t2 = current_resolution [of ?h3 defaulted_state empty_document ?h2 "''center''" "''right''" 0]
  note t3 = current_resolution [of ?h3 stale_state empty_document ?h2 "''center''" "''right''" 0]
  have r1: "currentLevel matching_state empty_document = (?h3, empty_document)"
    "currentAlignType matching_state empty_document = (''center'', empty_document)"
    using t1 by (simp_all add: m av)
  have r2: "currentLevel defaulted_state empty_document = (?h2, empty_document)"
    "currentAlignType defaulted_state empty_document = (''right'', empty_document)"
    using t2 by (simp_all add: d av parseInt_ids)
  have r3: "fst (currentLevel stale_state empty_document) = DEFAULT_HEADER_LEVEL"
    "fst (currentAlignType stale_state empty_document) = DEFAULT_ALIGN_TYPE"
    using t3 by (simp_all add: s av parseInt_consts)
  have r4: "level (fst (save stale_state 0 empty_document)) = JNum 1"
    "align (fst (save stale_state 0 empty_document)) = JStr ''left''"
    using t3 r3 by (simp_all add: DEFAULT_HEADER_LEVEL_def DEFAULT_ALIGN_TYPE_def)
  from r1 r2 r3 r4 show ?thesis by blast
qed

text \<open>
  The claim as it was stated fails: under \<open>config_restricted\<close>, a block constructed from
  persisted data with level 5 and alignment justify resolves to level 1 and \<open>left\<close>,
  neither of which is available, and \<open>save\<close> returns them.
\<close>

theorem current_resolution_counterexample:
  "case constructor id (JBool False) (Some config_restricted)
          (JObj [(''text'', JStr ''x''), (''level'', JNum 5), (''align'', JStr ''justify'')])
          empty_document of
     Inr (h, w) \<Rightarrow>
       fst (currentLevel h w) \<notin> set (availableLevels (config h)) \<and>
       fst (currentAlignType h w) \<notin> set (availableAlignTypes (config h)) \<and>
       level (fst (save h (render h) w)) = JNum 1 \<and>
       JNum 1 \<notin> (\<lambda>l. JNum (id' l)) ` set (availableLevels (config h)) \<and>
       align (fst (save h (render h) w)) = JStr ''left'' \<and>
       ''left'' \<notin> set (availableAlignTypes (config h))
   | Inl e \<Rightarrow> False"
  by code_simp

section \<open>The alignment-change callback\<close>

lemma wrapper_inj: "wrapperForAlignment a = wrapperForAlignment b \<longleftrightarrow> a = b"
  by (simp add: wrapperForAlignment_def)

lemma step_node:
  "nodes (setAlignType_step el v w a) = (nodes w)(el := (nodes w el)\<lparr>classList :=
       (if v = JStr a
        then token_add (filter (\<lambda>c. c \<noteq> wrapperForAlignment a) (classList (nodes w el))) (wrapperForAlignment a)
        else filter (\<lambda>c. c \<noteq> wrapperForAlignment a) (classList (nodes w el)))\<rparr>)"
  by (simp add: setAlignType_step_def nodes_classList_add nodes_classList_remove Let_def)

lemma step_classList:
  "classList (nodes (setAlignType_step el v w a) el) =
       (if v = JStr a
        then token_add (filter (\<lambda>c. c \<noteq> wrapperForAlignment a) (classList (nodes w el))) (wrapperForAlignment a)
        else filter (\<lambda>c. c \<noteq> wrapperForAlignment a) (classList (nodes w el)))"
  by (simp add: step_node)

lemma fold_classList:
  "classList (nodes (foldl (setAlignType_step el v) w bs) el) =
     foldl (\<lambda>cl a. if v = JStr a
                    then token_add (filter (\<lambda>c. c \<noteq> wrapperForAlignment a) cl) (wrapperForAlignment a)
                    else filter (\<lambda>c. c \<noteq> wrapperForAlignment a) cl)
       (classList (nodes w el)) bs"
  by (induction bs arbitrary: w) (simp_all add: step_classList)

lemma classList_setAlignType:
  "classList (nodes (snd (setAlignType this v w)) (element this)) =
     foldl (\<lambda>cl a. if v = JStr a
                    then token_add (filter (\<lambda>c. c \<noteq> wrapperForAlignment a) cl) (wrapperForAlignment a)
                    else filter (\<lambda>c. c \<noteq> wrapperForAlignment a) cl)
       (classList (nodes w (element this))) ALIGN_TYPES"
  by (simp add: setAlignType_def Let_def fold_classList)

text \<open>
  Claim C8. For each of the four alignment names \<open>a\<close> and whatever the class list of
  the tracked element was before, after \<open>_setAlignType(a)\<close> the stored alignment is
  \<open>a\<close>, the class list contains the class of \<open>a\<close> and the class of no other alignment
  name; restricted to alignment classes the list is exactly the class of \<open>a\<close>, once,
  and its other classes are as before. The tracked element is the same node.
\<close>

theorem setAlignType_one_class:
  assumes "a \<in> set ALIGN_TYPES"
  shows "case setAlignType this (JStr a) w of
           (this', w') \<Rightarrow>
             align (data this') = JStr a \<and> element this' = element this \<and>
             wrapperForAlignment a \<in> set (classList (nodes w' (element this'))) \<and>
             (\<forall>b \<in> set ALIGN_TYPES. b \<noteq> a \<longrightarrow>
                 wrapperForAlignment b \<notin> set (classList (nodes w' (element this')))) \<and>
             filter (\<lambda>c. c \<in> wrapperForAlignment ` set ALIGN_TYPES) (classList (nodes w' (element this')))
               = [wrapperForAlignment a] \<and>
             filter (\<lambda>c. c \<notin> wrapperForAlignment ` set ALIGN_TYPES) (classList (nodes w' (element this')))
               = filter (\<lambda>c. c \<notin> wrapperForAlignment ` set ALIGN_TYPES) (classList (nodes w (element this)))"
proof -
  obtain this' w' where r: "setAlignType this (JStr a) w = (this', w')"
    by (cases "setAlignType this (JStr a) w")
  have d: "align (data this') = JStr a" "element this' = element this"
    using r by (auto simp: setAlignType_def Let_def)
  have cl: "classList (nodes w' (element this)) =
     foldl (\<lambda>cl b. if JStr a = JStr b
                    then token_add (filter (\<lambda>c. c \<noteq> wrapperForAlignment b) cl) (wrapperForAlignment b)
                    else filter (\<lambda>c. c \<noteq> wrapperForAlignment b) cl)
       (classList (nodes w (element this))) ALIGN_TYPES"
    using classList_setAlignType [of this "JStr a" w] r by simp
  from assms consider "a = ''left''" | "a = ''center''" | "a = ''right''" | "a = ''justify''"
    by (auto simp: ALIGN_TYPES_def)
  then have "wrapperForAlignment a \<in> set (classList (nodes w' (element this))) \<and>
             (\<forall>b \<in> set ALIGN_TYPES. b \<noteq> a \<longrightarrow>
                 wrapperForAlignment b \<notin> set (classList (nodes w' (element this)))) \<and>
             filter (\<lambda>c. c \<in> wrapperForAlignment ` set ALIGN_TYPES) (classList (nodes w' (element this)))
               = [wrapperForAlignment a] \<and>
             filter (\<lambda>c. c \<notin> wrapperForAlignment ` set ALIGN_TYPES) (classList (nodes w' (element this)))
               = filter (\<lambda>c. c \<notin> wrapperForAlignment ` set ALIGN_TYPES) (classList (nodes w (element this)))"
  proof cases
    case 1
    show ?thesis unfolding cl 1
      by (auto simp: ALIGN_TYPES_def token_add_def wrapper_inj filter_empty_conv)
  next
    case 2
    show ?thesis unfolding cl 2
      by (auto simp: ALIGN_TYPES_def token_add_def wrapper_inj filter_empty_conv)
  next
    case 3
    show ?thesis unfolding cl 3
      by (auto simp: ALIGN_TYPES_def token_add_def wrapper_inj filter_empty_conv)
  next
    case 4
    show ?thesis unfolding cl 4
      by (auto simp: ALIGN_TYPES_def token_add_def wrapper_inj filter_empty_conv)
  qed
  with d r show ?thesis by simp
qed

theorem setAlignType_one_class_witness:
  "classList (nodes corrupted_document (element example_header)) =
     [''ce-header-align-left'', ''ce-header'', ''ce-header-align-right'', ''ce-header-align-justify''] \<and>
   (case setAlignType example_header (JStr ''center'') corrupted_document of
      (this', w') \<Rightarrow>
        align (data this') = JStr ''center'' \<and>
        filter (\<lambda>c. c \<in> wrapperForAlignment ` set ALIGN_TYPES) (classList (nodes w' (element this')))
          = [''ce-header-align-center''] \<and>
        filter (\<lambda>c. c \<notin> wrapperForAlignment ` set ALIGN_TYPES) (classList (nodes w' (element this')))
          = [''ce-header''])"
proof -
  have h: "''center'' \<in> set ALIGN_TYPES" by (simp add: ALIGN_TYPES_def)
  have before: "classList (nodes corrupted_document (element example_header)) =
     [''ce-header-align-left'', ''ce-header'', ''ce-header-align-right'', ''ce-header-align-justify'']"
    by (simp add: corrupted_document_def attached_document_def detached_document_def
        example_header_def update_node_def nodes_def)
  have keep: "filter (\<lambda>c. c \<notin> wrapperForAlignment ` set ALIGN_TYPES)
     [''ce-header-align-left'', ''ce-header'', ''ce-header-align-right'', ''ce-header-align-justify'']
       = [''ce-header'']"
    by (simp add: ALIGN_TYPES_def wrapperForAlignment_def)
  have w: "wrapperForAlignment ''center'' = ''ce-header-align-center''"
    by (simp add: wrapperForAlignment_def)
  from setAlignType_one_class [OF h, of example_header corrupted_document]
  show ?thesis
    unfolding before keep w by (auto simp: before)
qed

section \<open>The element built by \<open>getElement\<close>\<close>

lemma userDefaultLevel_world:
  "nodes (snd (userDefaultLevel c w)) = nodes w" "fresh (snd (userDefaultLevel c w)) = fresh w"
  "browser (snd (userDefaultLevel c w)) = browser w"
  by (simp_all add: userDefaultLevel_def warn_def nodes_console split: option.splits)

lemma userDefaultAlignType_world:
  "nodes (snd (userDefaultAlignType c w)) = nodes w" "fresh (snd (userDefaultAlignType c w)) = fresh w"
  "browser (snd (userDefaultAlignType c w)) = browser w"
  by (simp_all add: userDefaultAlignType_def warn_def nodes_console split: option.splits)

lemma currentLevel_world:
  "nodes (snd (currentLevel this w)) = nodes w" "fresh (snd (currentLevel this w)) = fresh w"
  "browser (snd (currentLevel this w)) = browser w"
  by (simp_all add: currentLevel_def userDefaultLevel_world split: option.splits)

lemma currentAlignType_world:
  "nodes (snd (currentAlignType this w)) = nodes w" "fresh (snd (currentAlignType this w)) = fresh w"
  "browser (snd (currentAlignType this w)) = browser w"
  by (simp_all add: currentAlignType_def userDefaultAlignType_world split: option.splits)

lemma js_or_text_not_null: "js_or v (JStr []) \<noteq> JNull"
  by (cases v) (simp_all add: js_or_def)

lemma wrapper_classes: "foldl token_add [] [CSS_wrapper, wrapperForAlignment al] = [CSS_wrapper, wrapperForAlignment al]"
  by (simp add: token_add_def CSS_wrapper_def wrapperForAlignment_def)

lemma getElement_fst: "fst (getElement this w) = fresh w"
  by (simp add: getElement_def split_beta Let_def createElement_def currentLevel_world)

lemma getElement_fresh: "fresh (snd (getElement this w)) = Suc (fresh w)"
  by (simp add: getElement_def split_beta Let_def createElement_fields currentLevel_world
      currentAlignType_world update_node_fields set_innerHTML_fields classList_fields)

lemma getElement_browser: "browser (snd (getElement this w)) = browser w"
  by (simp add: getElement_def split_beta Let_def createElement_fields currentLevel_world
      currentAlignType_world update_node_fields set_innerHTML_fields classList_fields)

lemma getElement_nodes:
  "nodes (snd (getElement this w)) = (nodes w)(fresh w := rendered this w)"
proof -
  define al where "al = fst (currentAlignType this w)"
  have al: "fst (currentAlignType this w') = al" for w'
    unfolding al_def by (rule fst_currentAlignType)
  show ?thesis
    by (simp add: getElement_def split_beta Let_def createElement_fields nodes_createElement
        currentLevel_world currentAlignType_world nodes_update_keep nodes_set_innerHTML
        nodes_classList_add set_innerHTML_fields classList_fields update_node_fields
        rendered_def new_node_def js_or_text_not_null wrapper_classes al del: foldl.simps)
qed

section \<open>The level-change callback\<close>

lemma getter_serialized: "serialize (browser w) (innerHTML (nodes w n)) = innerHTML (nodes w n)"
  by (simp add: nodes_def serialize_idem)

lemma level_3_available:
  assumes "l \<in> set (availableLevels c)" "id' l = 3"
  shows "l = \<lparr>id' = 3, tag = ''H3'', icon = h3Icon\<rparr>"
  using assms availableLevels_subset [of c] by (auto simp: HEADER_LEVELS_def)

text \<open>
  Claim C9. Let the element be attached to a parent \<open>p\<close> (both are nodes of the
  document) and let level 3 be available. Then \<open>_setHeaderLevel(3)\<close> returns, \<open>save\<close>
  afterwards returns level 3, and the tracked element is a new element with tag H3 and
  the markup the old element had; it has taken the place of the old element among the
  children of \<open>p\<close>. If the element has no parent, only the stored level changes: the
  instance keeps its element and the document is untouched.
\<close>

theorem setHeaderLevel_3:
  "(parentNode (nodes w (element this)) = Some p \<and> element this < fresh w \<and> p < fresh w \<and>
    (\<exists>l \<in> set (availableLevels (config this)). id' l = 3) \<longrightarrow>
      (\<exists>this' w'. setHeaderLevel this (JNum 3) w = Inr (this', w') \<and>
         level (fst (save this' (render this') w')) = JNum 3 \<and>
         tagName (nodes w' (element this')) = ''H3'' \<and>
         innerHTML (nodes w' (element this')) = innerHTML (nodes w (element this)) \<and>
         element this' = fresh w \<and>
         parentNode (nodes w' (element this')) = Some p \<and>
         parentNode (nodes w' (element this)) = None \<and>
         childNodes (nodes w' p) =
           map (\<lambda>c. if c = element this then element this' else c) (childNodes (nodes w p)))) \<and>
   (parentNode (nodes w (element this)) = None \<longrightarrow>
      setHeaderLevel this (JNum 3) w = Inr (this\<lparr>data := (data this)\<lparr>level := JNum 3\<rparr>\<rparr>, w))"
proof (intro conjI impI)
  assume "parentNode (nodes w (element this)) = None"
  then show "setHeaderLevel this (JNum 3) w = Inr (this\<lparr>data := (data this)\<lparr>level := JNum 3\<rparr>\<rparr>, w)"
    by (simp add: setHeaderLevel_def parseInt_ids)
next
  assume a: "parentNode (nodes w (element this)) = Some p \<and> element this < fresh w \<and> p < fresh w \<and>
    (\<exists>l \<in> set (availableLevels (config this)). id' l = 3)"
  define this1 where "this1 = this\<lparr>data := (data this)\<lparr>level := JNum 3\<rparr>\<rparr>"
  define w2 where "w2 = snd (getElement this1 w)"
  define w3 where "w3 = set_innerHTML (fresh w) (JStr (innerHTML (nodes w2 (element this)))) w2"
  define w4 where "w4 =
     update_node (fresh w) (\<lambda>n. n\<lparr>parentNode := Some p\<rparr>)
       (update_node (element this) (\<lambda>n. n\<lparr>parentNode := None\<rparr>)
         (update_node p
            (\<lambda>n. n\<lparr>childNodes := map (\<lambda>c. if c = element this then fresh w else c) (childNodes n)\<rparr>) w3))"
  from a obtain l where l: "l \<in> set (availableLevels (config this))" "id' l = 3" by blast
  then have l3: "l = \<lparr>id' = 3, tag = ''H3'', icon = h3Icon\<rparr>" by (rule level_3_available)
  have cur: "currentLevel this1 w0 = (l, w0)" for w0
    by (rule currentLevel_found) (use l in \<open>simp_all add: this1_def\<close>)
  have ge: "getElement this1 w = (fresh w, w2)"
    using getElement_fst [of this1 w] by (simp add: w2_def prod_eq_iff)
  have n2: "nodes w2 = (nodes w)(fresh w := rendered this1 w)" "browser w2 = browser w"
    unfolding w2_def by (rule getElement_nodes, rule getElement_browser)
  have neq: "element this \<noteq> fresh w" "p \<noteq> fresh w" using a by auto
  have n3: "nodes w3 = (nodes w2)(fresh w := (nodes w2 (fresh w))\<lparr>innerHTML :=
      innerHTML (nodes w (element this))\<rparr>)"
    using neq by (simp add: w3_def nodes_set_innerHTML n2 getter_serialized)
  have par3: "parentNode (nodes w3 (element this)) = Some p"
    using a neq by (simp add: n3 n2)
  have run: "setHeaderLevel this (JNum 3) w = Inr (this1\<lparr>element := fresh w\<rparr>, w4)"
    using a ge par3 unfolding this1_def w3_def w4_def
    by (simp add: setHeaderLevel_def parseInt_ids Let_def replaceChild_def)
  have n4: "nodes w4 =
      (nodes w3)(p := (nodes w3 p)\<lparr>childNodes :=
           map (\<lambda>c. if c = element this then fresh w else c) (childNodes (nodes w3 p))\<rparr>,
         element this := (((nodes w3)(p := (nodes w3 p)\<lparr>childNodes :=
           map (\<lambda>c. if c = element this then fresh w else c) (childNodes (nodes w3 p))\<rparr>))
             (element this))\<lparr>parentNode := None\<rparr>,
         fresh w := (nodes w3 (fresh w))\<lparr>parentNode := Some p\<rparr>)"
    using neq by (simp add: w4_def nodes_update_keep)
  have new: "nodes w4 (fresh w) =
      (rendered this1 w)\<lparr>innerHTML := innerHTML (nodes w (element this)), parentNode := Some p\<rparr>"
    using neq by (simp add: n4 n3 n2)
  have tag: "tagName (rendered this1 w) = ''H3''"
    by (simp add: rendered_def cur l3)
  have old: "parentNode (nodes w4 (element this)) = None"
    using neq by (simp add: n4 n3 n2)
  have kids: "childNodes (nodes w4 p) =
      map (\<lambda>c. if c = element this then fresh w else c) (childNodes (nodes w p))"
    using neq by (simp add: n4 n3 n2)
  have sv: "level (fst (save (this1\<lparr>element := fresh w\<rparr>) (fresh w) w4)) = JNum 3"
    using currentLevel_found [of l "this1\<lparr>element := fresh w\<rparr>" w4] l
    by (simp add: save_fields this1_def)
  show "\<exists>this' w'. setHeaderLevel this (JNum 3) w = Inr (this', w') \<and>
         level (fst (save this' (render this') w')) = JNum 3 \<and>
         tagName (nodes w' (element this')) = ''H3'' \<and>
         innerHTML (nodes w' (element this')) = innerHTML (nodes w (element this)) \<and>
         element this' = fresh w \<and>
         parentNode (nodes w' (element this')) = Some p \<and>
         parentNode (nodes w' (element this)) = None \<and>
         childNodes (nodes w' p) =
           map (\<lambda>c. if c = element this then element this' else c) (childNodes (nodes w p))"
    using run new tag old kids sv
    by (intro exI [of _ "this1\<lparr>element := fresh w\<rparr>"] exI [of _ w4]) (simp add: render_def)
qed

theorem setHeaderLevel_3_witness:
  "(\<exists>this' w'. setHeaderLevel example_header (JNum 3) attached_document = Inr (this', w') \<and>
       level (fst (save this' (render this') w')) = JNum 3 \<and>
       tagName (nodes w' (element this')) = ''H3'' \<and>
       innerHTML (nodes w' (element this')) = ''Foo'' \<and>
       element this' = 3 \<and>
       parentNode (nodes w' (element this')) = Some 0 \<and>
       childNodes (nodes w' 0) = [3]) \<and>
   setHeaderLevel example_header (JNum 3) detached_document =
     Inr (example_header\<lparr>data := (data example_header)\<lparr>level := JNum 3\<rparr>\<rparr>, detached_document)"
proof -
  have h1: "parentNode (nodes attached_document (element example_header)) = Some 0 \<and>
     element example_header < fresh attached_document \<and> 0 < fresh attached_document \<and>
     (\<exists>l \<in> set (availableLevels (config example_header)). id' l = 3)"
    by (simp add: attached_document_def detached_document_def example_header_def update_node_def
        nodes_def availableLevels_def empty_config_def HEADER_LEVELS_def)
  have h2: "parentNode (nodes detached_document (element example_header)) = None"
    by (simp add: detached_document_def example_header_def nodes_def)
  have v: "innerHTML (nodes attached_document 1) = ''Foo''"
    "fresh attached_document = 3" "element example_header = 1"
    "childNodes (nodes attached_document 0) = [1]"
    by code_simp+
  from setHeaderLevel_3 [of attached_document example_header 0] h1
  obtain this' w' where r:
     "setHeaderLevel example_header (JNum 3) attached_document = Inr (this', w')"
     "level (fst (save this' (render this') w')) = JNum 3"
     "tagName (nodes w' (element this')) = ''H3''"
     "innerHTML (nodes w' (element this')) = innerHTML (nodes attached_document (element example_header))"
     "element this' = fresh attached_document"
     "parentNode (nodes w' (element this')) = Some 0"
     "childNodes (nodes w' 0) =
        map (\<lambda>c. if c = element example_header then element this' else c)
          (childNodes (nodes attached_document 0))"
    by blast
  have a: "\<exists>this' w'. setHeaderLevel example_header (JNum 3) attached_document = Inr (this', w') \<and>
       level (fst (save this' (render this') w')) = JNum 3 \<and>
       tagName (nodes w' (element this')) = ''H3'' \<and>
       innerHTML (nodes w' (element this')) = ''Foo'' \<and>
       element this' = 3 \<and>
       parentNode (nodes w' (element this')) = Some 0 \<and>
       childNodes (nodes w' 0) = [3]"
    using r unfolding v by (intro exI [of _ this'] exI [of _ w']) simp
  from setHeaderLevel_3 [of detached_document example_header 0] h2
  have b: "setHeaderLevel example_header (JNum 3) detached_document =
     Inr (example_header\<lparr>data := (data example_header)\<lparr>level := JNum 3\<rparr>\<rparr>, detached_document)"
    by blast
  from a b show ?thesis by blast
qed

section \<open>Pasting\<close>

lemma level_2_available:
  assumes "l \<in> set (availableLevels c)" "id' l = 2"
  shows "l = \<lparr>id' = 2, tag = ''H2'', icon = h2Icon\<rparr>"
  using assms availableLevels_subset [of c] by (auto simp: HEADER_LEVELS_def)

lemma userDefaultLevel_id:
  "id' (fst (userDefaultLevel c w)) \<in> {1, 2, 3, 4, 5, 6}"
  using userDefaultLevel_mem [of c w] availableLevels_subset [of c]
    set_HEADER_LEVELS [of "fst (userDefaultLevel c w)"]
  by (auto simp: DEFAULT_HEADER_LEVEL_def)

lemma parseInt_level_id:
  assumes "i \<in> {1, 2, 3, 4, 5, 6}"
  shows "parseInt (JNum i) = JNum i" "truthy (parseInt (JNum i))"
  using assms by (auto simp: parseInt_ids)

lemma currentAlignType_nonempty: "fst (currentAlignType this w) \<noteq> []"
  using currentAlignType_mem [of this w] availableAlignTypes_subset [of "config this"]
  by (auto simp: ALIGN_TYPES_def DEFAULT_ALIGN_TYPE_def)

lemma normalizeData_literal:
  assumes "parseInt (JNum lv) = JNum lv" "lv \<noteq> 0" "al \<noteq> []"
  shows "normalizeData c (JObj [(''text'', JStr t), (''level'', JNum lv), (''align'', JStr al)]) w =
           Inr (\<lparr>text' = JStr t, level = JNum lv, align = JStr al\<rparr>, w)"
  using assms by (simp add: normalizeData_def js_or_def)

lemma onPaste_unfold:
  "onPaste this headerTag w =
     (let w1 = snd (currentLevel this w);
          t = tagName (nodes w headerTag);
          lv = (if t = ''H1'' then 1 else if t = ''H2'' then 2 else if t = ''H3'' then 3
                else if t = ''H4'' then 4 else if t = ''H5'' then 5 else if t = ''H6'' then 6
                else id' (fst (userDefaultLevel (config this) w)));
          w2 = (if t \<in> set [''H1'', ''H2'', ''H3'', ''H4'', ''H5'', ''H6''] then w1
                else snd (userDefaultLevel (config this) w1));
          w3 = snd (currentAlignType this w2);
          this1 = this\<lparr>data := \<lparr>text' = JStr (innerHTML (nodes w headerTag)), level = JNum lv,
                                    align = JStr (fst (currentAlignType this w))\<rparr>\<rparr>
      in Inr (this1\<lparr>element := fresh w\<rparr>, snd (getElement this1 w3)))"
proof -
  define al where "al = fst (currentAlignType this w)"
  have al: "fst (currentAlignType this w') = al" for w'
    unfolding al_def by (rule fst_currentAlignType)
  have alne: "al \<noteq> []" unfolding al_def by (rule currentAlignType_nonempty)
  define d where "d = fst (userDefaultLevel (config this) w)"
  have d: "fst (userDefaultLevel (config this) w') = d" for w'
    unfolding d_def by (rule fst_userDefaultLevel)
  have did: "parseInt (JNum (id' d)) = JNum (id' d)" "id' d \<noteq> 0"
    using parseInt_level_id [OF userDefaultLevel_id [of "config this" w]]
      userDefaultLevel_id [of "config this" w] by (auto simp: d_def)
  show ?thesis
    unfolding al_def [symmetric] d_def [symmetric]
    by (simp add: onPaste_def split_beta Let_def currentLevel_world currentAlignType_world
        userDefaultLevel_world al d normalizeData_literal alne parseInt_ids did getElement_fst)
qed

lemma rendered_world: "browser w = browser w' \<Longrightarrow> rendered this w = rendered this w'"
  using fst_currentLevel [of this w w'] fst_currentAlignType [of this w w']
  by (simp add: rendered_def)

lemma rendered_element: "rendered (h\<lparr>element := e\<rparr>) w = rendered h w"
  by (simp add: rendered_def currentLevel_def currentAlignType_def split: option.splits)

text \<open>
  Claim C10. Pasting an H2 element with markup Hello while the current alignment is
  right (right and level 2 being available) sets the stored data to text Hello, level 2,
  alignment right, and makes the tracked element a newly created one, built from that
  data and attached to no parent. If the tag of the pasted element is none of H1 to H6,
  the stored level is the id of the resolved default level. \<open>onPaste\<close> returns in both
  cases.
\<close>

theorem onPaste_heading:
  "(tagName (nodes w headerTag) = ''H2'' \<and> innerHTML (nodes w headerTag) = ''Hello'' \<and>
    fst (currentAlignType this w) = ''right'' \<and>
    ''right'' \<in> set (availableAlignTypes (config this)) \<and>
    (\<exists>l \<in> set (availableLevels (config this)). id' l = 2) \<longrightarrow>
      (\<exists>this' w'. onPaste this headerTag w = Inr (this', w') \<and>
         data this' = \<lparr>text' = JStr ''Hello'', level = JNum 2, align = JStr ''right''\<rparr> \<and>
         element this' = fresh w \<and> fresh w' = Suc (fresh w) \<and>
         nodes w' = (nodes w)(fresh w := rendered this' w) \<and>
         tagName (nodes w' (element this')) = ''H2'' \<and>
         innerHTML (nodes w' (element this')) = ''Hello'' \<and>
         classList (nodes w' (element this')) = [''ce-header'', ''ce-header-align-right''] \<and>
         parentNode (nodes w' (element this')) = None)) \<and>
   (tagName (nodes w headerTag) \<notin> set [''H1'', ''H2'', ''H3'', ''H4'', ''H5'', ''H6''] \<longrightarrow>
      (\<exists>this' w'. onPaste this headerTag w = Inr (this', w') \<and>
         level (data this') = JNum (id' (fst (userDefaultLevel (config this) w)))))"
proof (intro conjI impI)
  assume a: "tagName (nodes w headerTag) = ''H2'' \<and> innerHTML (nodes w headerTag) = ''Hello'' \<and>
    fst (currentAlignType this w) = ''right'' \<and>
    ''right'' \<in> set (availableAlignTypes (config this)) \<and>
    (\<exists>l \<in> set (availableLevels (config this)). id' l = 2)"
  define this1 where "this1 =
    this\<lparr>data := \<lparr>text' = JStr ''Hello'', level = JNum 2, align = JStr ''right''\<rparr>\<rparr>"
  define w3 where "w3 = snd (currentAlignType this (snd (currentLevel this w)))"
  define w5 where "w5 = snd (getElement this1 w3)"
  have w3: "nodes w3 = nodes w" "fresh w3 = fresh w" "browser w3 = browser w"
    by (simp_all add: w3_def currentAlignType_world currentLevel_world)
  have hello: "serialize (browser w) ''Hello'' = ''Hello''"
    using a getter_serialized [of w headerTag] by simp
  have run: "onPaste this headerTag w = Inr (this1\<lparr>element := fresh w\<rparr>, w5)"
    using a by (simp add: onPaste_unfold Let_def this1_def w5_def w3_def)
  from a obtain l where "l \<in> set (availableLevels (config this))" "id' l = 2" by blast
  then have l: "l \<in> set (availableLevels (config this1))" "level (data this1) = JNum (id' l)"
    "tag l = ''H2''"
    using level_2_available [of l "config this"] by (simp_all add: this1_def)
  have cl: "fst (currentLevel this1 v) = l" for v
    using currentLevel_found [OF l(1,2), of v] by simp
  have ca: "fst (currentAlignType this1 v) = ''right''" for v
    using currentAlignType_found [of "''right''" this1 v] a by (simp add: this1_def)
  have rd: "rendered (this1\<lparr>element := fresh w\<rparr>) w = rendered this1 w3"
    using rendered_world [of w w3 this1] w3 by (simp add: rendered_element)
  have n5: "nodes w5 = (nodes w)(fresh w := rendered this1 w3)" "fresh w5 = Suc (fresh w)"
    using getElement_nodes [of this1 w3] getElement_fresh [of this1 w3] by (simp_all add: w5_def w3)
  have dt: "text' (data this1) = JStr ''Hello''" by (simp add: this1_def)
  have node: "tagName (rendered this1 w3) = ''H2''" "innerHTML (rendered this1 w3) = ''Hello''"
    "classList (rendered this1 w3) = [''ce-header'', ''ce-header-align-right'']"
    "parentNode (rendered this1 w3) = None"
    using dt hello
    by (simp_all add: rendered_def cl ca l(3) js_or_def CSS_wrapper_def wrapperForAlignment_def w3)
  show "\<exists>this' w'. onPaste this headerTag w = Inr (this', w') \<and>
         data this' = \<lparr>text' = JStr ''Hello'', level = JNum 2, align = JStr ''right''\<rparr> \<and>
         element this' = fresh w \<and> fresh w' = Suc (fresh w) \<and>
         nodes w' = (nodes w)(fresh w := rendered this' w) \<and>
         tagName (nodes w' (element this')) = ''H2'' \<and>
         innerHTML (nodes w' (element this')) = ''Hello'' \<and>
         classList (nodes w' (element this')) = [''ce-header'', ''ce-header-align-right''] \<and>
         parentNode (nodes w' (element this')) = None"
    using run n5 node rd
    by (intro exI [of _ "this1\<lparr>element := fresh w\<rparr>"] exI [of _ w5]) (simp add: this1_def)
next
  assume "tagName (nodes w headerTag) \<notin> set [''H1'', ''H2'', ''H3'', ''H4'', ''H5'', ''H6'']"
  then show "\<exists>this' w'. onPaste this headerTag w = Inr (this', w') \<and>
         level (data this') = JNum (id' (fst (userDefaultLevel (config this) w)))"
    by (simp add: onPaste_unfold Let_def)
qed

theorem onPaste_heading_witness:
  "(\<exists>this' w'. onPaste example_header 2 attached_document = Inr (this', w') \<and>
       data this' = \<lparr>text' = JStr ''Hello'', level = JNum 2, align = JStr ''right''\<rparr> \<and>
       element this' = 3 \<and>
       tagName (nodes w' (element this')) = ''H2'' \<and>
       innerHTML (nodes w' (element this')) = ''Hello'' \<and>
       classList (nodes w' (element this')) = [''ce-header'', ''ce-header-align-right''] \<and>
       parentNode (nodes w' (element this')) = None) \<and>
   (\<exists>this' w'. onPaste example_header 0 attached_document = Inr (this', w') \<and>
       level (data this') = JNum 1)"
proof -
  have h1: "tagName (nodes attached_document 2) = ''H2'' \<and>
     innerHTML (nodes attached_document 2) = ''Hello'' \<and>
     fst (currentAlignType example_header attached_document) = ''right'' \<and>
     ''right'' \<in> set (availableAlignTypes (config example_header)) \<and>
     (\<exists>l \<in> set (availableLevels (config example_header)). id' l = 2)"
    by code_simp
  have h2: "tagName (nodes attached_document 0) \<notin> set [''H1'', ''H2'', ''H3'', ''H4'', ''H5'', ''H6'']"
    by code_simp
  have v: "fresh attached_document = 3"
    "id' (fst (userDefaultLevel (config example_header) attached_document)) = 1"
    by code_simp+
  from onPaste_heading [of attached_document 2 example_header] h1
  obtain this' w' where r:
     "onPaste example_header 2 attached_document = Inr (this', w')"
     "data this' = \<lparr>text' = JStr ''Hello'', level = JNum 2, align = JStr ''right''\<rparr>"
     "element this' = fresh attached_document"
     "tagName (nodes w' (element this')) = ''H2''"
     "innerHTML (nodes w' (element this')) = ''Hello''"
     "classList (nodes w' (element this')) = [''ce-header'', ''ce-header-align-right'']"
     "parentNode (nodes w' (element this')) = None"
    by blast
  have a: "\<exists>this' w'. onPaste example_header 2 attached_document = Inr (this', w') \<and>
       data this' = \<lparr>text' = JStr ''Hello'', level = JNum 2, align = JStr ''right''\<rparr> \<and>
       element this' = 3 \<and>
       tagName (nodes w' (element this')) = ''H2'' \<and>
       innerHTML (nodes w' (element this')) = ''Hello'' \<and>
       classList (nodes w' (element this')) = [''ce-header'', ''ce-header-align-right''] \<and>
       parentNode (nodes w' (element this')) = None"
    using r unfolding v by (intro exI [of _ this'] exI [of _ w']) simp
  from onPaste_heading [of attached_document 0 example_header] h2
  have b: "\<exists>this' w'. onPaste example_header 0 attached_document = Inr (this', w') \<and>
       level (data this') = JNum 1"
    unfolding v by blast
  from a b show ?thesis by blast
qed

section \<open>Saving what was rendered\<close>

text \<open>
  Claim C6, as amended. Let \<open>D\<close> be an object whose text is a non-empty string \<open>t\<close>,
  whose level \<open>l\<close> is the id of an available level and whose alignment \<open>a\<close> is an
  available alignment name. Constructing the block from \<open>D\<close> succeeds, and saving the
  element it renders, untouched, returns level \<open>l\<close>, alignment \<open>a\<close> and, as text, the
  markup that the browser returns for \<open>t\<close>. The record equals \<open>D\<close> when \<open>t\<close> is in
  serialised form already, that is, when the browser returns \<open>t\<close> for \<open>t\<close>. (An
  available level has an id from 1 to 6 and an available alignment is one of the four
  names.)
\<close>

theorem save_render_roundtrip:
  assumes "t \<noteq> []"
    and "\<exists>lv \<in> set (availableLevels c). id' lv = l"
    and "a \<in> set (availableAlignTypes c)"
    and "map_of D ''text'' = Some (JStr t)"
    and "map_of D ''level'' = Some (JNum l)"
    and "map_of D ''align'' = Some (JStr a)"
  shows "\<exists>h w'. constructor api ro (Some c) (JObj D) w = Inr (h, w') \<and>
           fst (save h (render h) w') =
             \<lparr>text' = JStr (serialize (browser w) t), level = JNum l, align = JStr a\<rparr> \<and>
           (serialize (browser w) t = t \<longrightarrow>
              fst (save h (render h) w') = \<lparr>text' = JStr t, level = JNum l, align = JStr a\<rparr>)"
proof -
  define d where "d = \<lparr>text' = JStr t, level = JNum l, align = JStr a\<rparr>"
  define this0 where "this0 = \<lparr>i18n_t = api, readOnly = ro, config = c, data = d\<rparr>"
  define w2 where "w2 = snd (getElement this0 w)"
  define h where "h = \<lparr>i18n_t = api, readOnly = ro, config = c, data = d, element = fresh w\<rparr>"
  from assms(2) obtain lv where lv: "lv \<in> set (availableLevels c)" "id' lv = l" by blast
  then have lid: "l \<in> {1, 2, 3, 4, 5, 6}"
    using set_HEADER_LEVELS [of lv] availableLevels_subset [of c] by auto
  have ane: "a \<noteq> []"
    using assms(3) by (rule availableAlignTypes_nonempty)
  have p: "parseInt (JNum l) = JNum l" "l \<noteq> 0"
    using parseInt_level_id(1) [OF lid] lid by auto
  have norm: "normalizeData c (JObj D) w = Inr (d, w)"
    using assms(1,4,5,6) p ane by (simp add: normalizeData_def js_or_def d_def)
  have run: "constructor api ro (Some c) (JObj D) w = Inr (h, w2)"
    using getElement_fst [of this0 w]
    by (simp add: constructor_def norm split_beta Let_def this0_def [symmetric] w2_def h_def)
  have n2: "nodes w2 (fresh w) = rendered this0 w"
    by (simp add: w2_def getElement_nodes)
  have markup: "innerHTML (rendered this0 w) = serialize (browser w) t"
    using assms(1) by (simp add: rendered_def this0_def d_def js_or_def)
  have cl: "currentLevel h w2 = (lv, w2)"
    by (rule currentLevel_found) (use lv in \<open>simp_all add: h_def d_def\<close>)
  have ca: "currentAlignType h w2 = (a, w2)"
    by (rule currentAlignType_found) (use assms(3) in \<open>simp_all add: h_def d_def\<close>)
  have sv: "fst (save h (render h) w2) =
      \<lparr>text' = JStr (serialize (browser w) t), level = JNum l, align = JStr a\<rparr>"
    using n2 markup cl ca lv(2) by (simp add: save_fields render_def h_def)
  show ?thesis
    using run sv by (intro exI [of _ h] exI [of _ w2]) simp
qed

theorem save_render_roundtrip_witness:
  "\<exists>h w'. constructor id (JBool False) (Some config_restricted)
            (JObj [(''align'', JStr ''center''), (''text'', JStr ''Title''), (''level'', JNum 3)])
            empty_document = Inr (h, w') \<and>
          fst (save h (render h) w') =
            \<lparr>text' = JStr ''Title'', level = JNum 3, align = JStr ''center''\<rparr>"
proof -
  have h1: "\<exists>lv \<in> set (availableLevels config_restricted). id' lv = 3"
    by (simp add: config_restricted_def availableLevels_def HEADER_LEVELS_def array_includes_def)
  have h2: "''center'' \<in> set (availableAlignTypes config_restricted)"
    by (simp add: config_restricted_def availableAlignTypes_def ALIGN_TYPES_def array_includes_def)
  have h3: "serialize (browser empty_document) ''Title'' = ''Title''"
    by code_simp
  from save_render_roundtrip [of "''Title''" config_restricted 3 "''center''"
      "[(''align'', JStr ''center''), (''text'', JStr ''Title''), (''level'', JNum 3)]"
      id "JBool False" empty_document, OF _ h1 h2]
  obtain h w' where "constructor id (JBool False) (Some config_restricted)
            (JObj [(''align'', JStr ''center''), (''text'', JStr ''Title''), (''level'', JNum 3)])
            empty_document = Inr (h, w')"
    "fst (save h (render h) w') =
       \<lparr>text' = JStr (serialize (browser empty_document) ''Title''), level = JNum 3,
        align = JStr ''center''\<rparr>"
    by auto
  then show ?thesis unfolding h3 by blast
qed

text \<open>
  The claim as it was stated fails for a text that the browser serialises differently:
  with the text \<open>a & b\<close> the saved text is \<open>a &amp; b\<close>.
\<close>

theorem save_render_roundtrip_counterexample:
  "case constructor id (JBool False) None
          (JObj [(''text'', JStr ''a & b''), (''level'', JNum 2), (''align'', JStr ''center'')])
          empty_document of
     Inr (h, w) \<Rightarrow>
       fst (save h (render h) w) =
         \<lparr>text' = JStr ''a &amp; b'', level = JNum 2, align = JStr ''center''\<rparr> \<and>
       fst (save h (render h) w) \<noteq>
         \<lparr>text' = JStr ''a & b'', level = JNum 2, align = JStr ''center''\<rparr>
   | Inl e \<Rightarrow> False"
  by code_simp

section \<open>Merging\<close>

lemma merge_string:
  "merge this (JObj [(''text'', JStr s)]) w =
     Inr (set_innerHTML (element this) (JStr (innerHTML (nodes w (element this)) @ s)) w)"
  by (simp add: merge_def js_add_string_def js_or_def)

text \<open>
  Claim C1. On an element with markup Foo, \<open>merge({text: 'Bar'})\<close> leaves the markup
  FooBar. For a fragment without \<open>text\<close> the claim expects the markup to stay Foo, but
  \<open>merge({})\<close> leaves Fooundefined, and \<open>merge({text: null})\<close> leaves Foonull: the
  \<open>|| ''\<close> of the source applies to the concatenation, not to \<open>data.text\<close>.
\<close>

theorem merge_without_text:
  "case constructor id (JBool False) None (JObj [(''text'', JStr ''Foo'')]) empty_document of
     Inr (h, w) \<Rightarrow>
       innerHTML (nodes w (element h)) = ''Foo'' \<and>
       (case merge h (JObj [(''text'', JStr ''Bar'')]) w of
          Inr w' \<Rightarrow> innerHTML (nodes w' (element h)) = ''FooBar''
        | Inl e \<Rightarrow> False) \<and>
       (case merge h (JObj []) w of
          Inr w' \<Rightarrow> innerHTML (nodes w' (element h)) = ''Fooundefined''
        | Inl e \<Rightarrow> False) \<and>
       (case merge h (JObj [(''text'', JNull)]) w of
          Inr w' \<Rightarrow> innerHTML (nodes w' (element h)) = ''Foonull''
        | Inl e \<Rightarrow> False)
   | Inl e \<Rightarrow> False"
  by code_simp

section \<open>Normalization\<close>

lemma normalizeData_not_null:
  assumes "data0 \<noteq> JNull"
  shows "\<exists>d w'. normalizeData c data0 w = Inr (d, w') \<and>
     text' d = (if truthy (own_property data0 ''text'') then own_property data0 ''text'' else JStr []) \<and>
     level d = (if truthy (parseInt (own_property data0 ''level''))
                then parseInt (own_property data0 ''level'')
                else JNum (id' (fst (userDefaultLevel c w)))) \<and>
     align d = (if truthy (own_property data0 ''align'') then own_property data0 ''align''
                else JStr (fst (userDefaultAlignType c w)))"
proof -
  define da where "da = fst (userDefaultAlignType c w)"
  have da: "fst (userDefaultAlignType c w') = da" for w'
    unfolding da_def by (rule fst_userDefaultAlignType)
  show ?thesis
    using assms unfolding da_def [symmetric]
    by (cases data0)
      (auto simp: normalizeData_def own_property_def js_or_def parseInt_consts split_beta da
        split: option.splits)
qed

text \<open>
  Claim C2. The claim expects \<open>_normalizeData\<close> to return for every input, \<open>null\<close>
  included. For \<open>null\<close> it throws: \<open>typeof null\<close> is \<open>object\<close>, so the guard against
  non-objects lets \<open>null\<close> through and reading \<open>data.text\<close> raises a TypeError, in
  \<open>_normalizeData\<close> and so in the constructor. (For every other input it returns the
  record the claim describes: \<open>normalizeData_not_null\<close>.)
\<close>

theorem normalizeData_null:
  "normalizeData c JNull w = Inl (TypeError ''Cannot read properties of null (reading text)'') \<and>
   constructor api ro cfg JNull w = Inl (TypeError ''Cannot read properties of null (reading text)'')"
  by (simp add: normalizeData_def constructor_def)

section \<open>The settings menu\<close>

lemma map_effect_pure:
  assumes "\<And>x w. \<exists>w'. f x w = Inr (g x, w')"
  shows "\<exists>w'. map_effect f xs w = Inr (map g xs, w')"
proof (induction xs arbitrary: w)
  case Nil
  show ?case by simp
next
  case (Cons x xs)
  from assms obtain w1 where 1: "f x w = Inr (g x, w1)" by blast
  from Cons.IH obtain w2 where 2: "map_effect f xs w1 = Inr (map g xs, w2)" by blast
  from 1 2 show ?case by simp
qed

lemma headerType_pure:
  "\<exists>w'. headerType this lvl w =
     Inr (createSetting (icon lvl) (i18n_t this (JStr (''Heading '' @ number_string (id' lvl))))
            (call_setHeaderLevel (id' lvl)) (id' lvl = id' (fst (currentLevel this w0))) ''heading'', w')"
  using fst_currentLevel [of this w w0]
  by (simp add: headerType_def getFormattedLabel_def split_beta)

lemma alignType_pure:
  "\<exists>w'. alignType this al w =
     Inr (createSetting (getAlignmentIcon al) (i18n_t this (JStr (toUpperCase (take 1 al) @ drop 1 al)))
            (call_setAlignType al) (al = fst (currentAlignType this w0)) ''align'', w')"
  using fst_currentAlignType [of this w w0]
  by (simp add: alignType_def getFormattedLabel_def split_beta)

lemma renderSettings_entries:
  "\<exists>items w'. renderSettings this w = Inr (items, w') \<and>
     map onActivate items =
       map (\<lambda>l. call_setHeaderLevel (id' l)) HEADER_LEVELS @ map call_setAlignType ALIGN_TYPES \<and>
     map isActive items =
       map (\<lambda>l. id' l = id' (fst (currentLevel this w))) HEADER_LEVELS @
       map (\<lambda>a. a = fst (currentAlignType this w)) ALIGN_TYPES \<and>
     map toggle items =
       map (\<lambda>l. ''heading'') HEADER_LEVELS @ map (\<lambda>a. ''align'') ALIGN_TYPES"
proof -
  define hs where "hs = (\<lambda>lvl :: header_level. createSetting (icon lvl)
      (i18n_t this (JStr (''Heading '' @ number_string (id' lvl))))
      (call_setHeaderLevel (id' lvl)) (id' lvl = id' (fst (currentLevel this w))) ''heading'')"
  define as where "as = (\<lambda>al. createSetting (getAlignmentIcon al)
      (i18n_t this (JStr (toUpperCase (take 1 al) @ drop 1 al)))
      (call_setAlignType al) (al = fst (currentAlignType this w)) ''align'')"
  have "\<exists>w'. map_effect (headerType this) HEADER_LEVELS w = Inr (map hs HEADER_LEVELS, w')"
    unfolding hs_def by (rule map_effect_pure) (rule headerType_pure)
  then obtain w1 where 1: "map_effect (headerType this) HEADER_LEVELS w = Inr (map hs HEADER_LEVELS, w1)"
    by blast
  have "\<exists>w'. map_effect (alignType this) ALIGN_TYPES w1 = Inr (map as ALIGN_TYPES, w')"
    unfolding as_def by (rule map_effect_pure) (rule alignType_pure)
  then obtain w2 where 2: "map_effect (alignType this) ALIGN_TYPES w1 = Inr (map as ALIGN_TYPES, w2)"
    by blast
  have r: "renderSettings this w = Inr (map hs HEADER_LEVELS @ map as ALIGN_TYPES, w2)"
    by (simp add: renderSettings_def 1 2)
  show ?thesis
    unfolding r by (simp add: hs_def as_def createSetting_def comp_def)
qed

text \<open>
  Claim C3. The claim expects one menu entry per available level and per available
  alignment. Under a configuration that allows levels 2 and 3 and the alignments center
  and right only, \<open>renderSettings\<close> still returns ten entries: one for each of the six
  built-in levels and one for each of the four built-in alignments (it maps over
  \<open>HEADER_LEVELS\<close> and \<open>ALIGN_TYPES\<close>, not over the available ones). The active flags
  are as claimed: level 2 and center, the current ones, are the active entries.
\<close>

theorem renderSettings_all_levels:
  "case constructor id (JBool False) (Some config_restricted)
          (JObj [(''text'', JStr ''x''), (''level'', JNum 2), (''align'', JStr ''center'')])
          empty_document of
     Inr (h, w) \<Rightarrow>
       map id' (availableLevels (config h)) = [2, 3] \<and>
       availableAlignTypes (config h) = [''center'', ''right''] \<and>
       (case renderSettings h w of
          Inr (items, w') \<Rightarrow>
            map onActivate items =
              [call_setHeaderLevel 1, call_setHeaderLevel 2, call_setHeaderLevel 3,
               call_setHeaderLevel 4, call_setHeaderLevel 5, call_setHeaderLevel 6,
               call_setAlignType ''left'', call_setAlignType ''center'',
               call_setAlignType ''right'', call_setAlignType ''justify''] \<and>
            map isActive items =
              [False, True, False, False, False, False, False, True, False, False]
        | Inl e \<Rightarrow> False)
   | Inl e \<Rightarrow> False"
  by code_simp

end
